theory Spec2Isabelle
  imports Main "HOL-Library.Word" "HOL-Library.AList"
begin

unbundle bit_operations_syntax

section \<open>Python values and exceptions\<close>

text \<open>
  The token subsystem of \<^verbatim>\<open>app/auth/jwt.py\<close> and the credential hasher of
  \<^verbatim>\<open>app/auth/security.py\<close>, as a shallow embedding. Claim values are the Python
  values the code puts into a claim set: strings, integers and \<^verbatim>\<open>datetime\<close> objects.
  A \<^verbatim>\<open>dict\<close> is an association list in insertion order with distinct keys; lookup
  is \<^const>\<open>map_of\<close>.
\<close>

datatype pyval = PyStr string | PyInt int | PyDatetime int

type_synonym pydict = "(string \<times> pyval) list"

text \<open>
  Every exception the modelled code can raise or let through. \<^verbatim>\<open>detail\<close> is the
  \<^verbatim>\<open>detail\<close> argument of an \<^verbatim>\<open>HTTPException\<close>: a literal, \<^verbatim>\<open>str(e)\<close> of a
  caught exception, or an f-string made of a literal followed by \<^verbatim>\<open>str(e)\<close>. The
  third argument is the \<^verbatim>\<open>headers\<close> dictionary.
\<close>

datatype exn =
    HTTPException nat detail "(string \<times> string) list"
  | KeyError string
  | TypeError
  | OverflowError
  | JWSError
  | JWTError
  | JWTClaimsError
  | ExpiredSignatureError
  | JWKError
  | AttributeError
  | UnicodeEncodeError
  | BinasciiError
  | UnknownHashError
  | ValueError
and detail = Lit string | Str exn | LitStr string exn

text \<open>
  \<^verbatim>\<open>ExpiredSignatureError\<close> and \<^verbatim>\<open>JWTClaimsError\<close> are subclasses of \<^verbatim>\<open>JWTError\<close>;
  \<^verbatim>\<open>JWSError\<close> and \<^verbatim>\<open>JWKError\<close> are not.
\<close>

fun is_JWTError :: "exn \<Rightarrow> bool" where
  "is_JWTError JWTError = True"
| "is_JWTError JWTClaimsError = True"
| "is_JWTError ExpiredSignatureError = True"
| "is_JWTError _ = False"

definition bearer :: "(string \<times> string) list" where
  "bearer = [(''WWW-Authenticate'', ''Bearer'')]"

section \<open>Time\<close>

text \<open>
  A \<^verbatim>\<open>datetime\<close> in UTC is its number of microseconds since the epoch, a
  \<^verbatim>\<open>timedelta\<close> a number of microseconds. Both types are bounded in Python and their
  arithmetic raises \<^verbatim>\<open>OverflowError\<close> outside the bounds: years 1 to 9999 for a
  \<^verbatim>\<open>datetime\<close>, 999999999 days either way for a \<^verbatim>\<open>timedelta\<close>.
\<close>

type_synonym datetime = int
type_synonym timedelta = int

definition datetime_min :: datetime where
  "datetime_min = - 62135596800000000"

definition datetime_max :: datetime where
  "datetime_max = 253402300799999999"

definition datetime_add :: "datetime \<Rightarrow> timedelta \<Rightarrow> exn + datetime" where
  "datetime_add d td =
     (if datetime_min \<le> d + td \<and> d + td \<le> datetime_max then Inr (d + td)
      else Inl OverflowError)"

definition mk_timedelta :: "int \<Rightarrow> exn + timedelta" where
  "mk_timedelta us =
     (if - 999999999 * 86400000000 \<le> us \<and> us < 1000000000 * 86400000000 then Inr us
      else Inl OverflowError)"

definition timedelta_minutes :: "int \<Rightarrow> exn + timedelta" where
  "timedelta_minutes m = mk_timedelta (m * 60000000)"

definition timedelta_days :: "int \<Rightarrow> exn + timedelta" where
  "timedelta_days d = mk_timedelta (d * 86400000000)"

text \<open>\<^verbatim>\<open>timegm(d.utctimetuple())\<close>: whole seconds since the epoch, microseconds dropped.\<close>

definition timegm :: "datetime \<Rightarrow> int" where
  "timegm d = d div 1000000"

section \<open>Configuration and the token type\<close>

text \<open>
  \<^verbatim>\<open>settings = get_settings()\<close>: the configuration object is built outside the
  modelled files; the functions take it as a parameter.
\<close>

record settings =
  SECRET_KEY :: string
  JWT_SECRET_KEY :: string
  JWT_REFRESH_SECRET_KEY :: string
  ALGORITHM :: string
  ACCESS_TOKEN_EXPIRE_MINUTES :: int
  REFRESH_TOKEN_EXPIRE_DAYS :: int

datatype TokenType = ACCESS | REFRESH

text \<open>
  Modelled from the spec: the enum \<^verbatim>\<open>TokenType\<close> of \<^verbatim>\<open>app/schemas/token.py\<close> is
  not among the sources. The spec gives it the two members ACCESS and REFRESH and
  says the \<^verbatim>\<open>type\<close> claim holds the "string enum value"; the two values are distinct
  strings (members of a Python enum with equal values would be one member).
\<close>

fun TokenType_value :: "TokenType \<Rightarrow> string" where
  "TokenType_value ACCESS = ''access''"
| "TokenType_value REFRESH = ''refresh''"

section \<open>Strings\<close>

definition startswith :: "string \<Rightarrow> string \<Rightarrow> bool" where
  "startswith s p = (take (length p) s = p)"

text \<open>\<^verbatim>\<open>p in s\<close> for two strings.\<close>

fun contains :: "string \<Rightarrow> string \<Rightarrow> bool" where
  "contains [] p = (p = [])"
| "contains (c # cs) p = (startswith (c # cs) p \<or> contains cs p)"

definition is_digit :: "char \<Rightarrow> bool" where
  "is_digit c = (c \<in> set ''0123456789'')"

definition digit_val :: "char \<Rightarrow> nat" where
  "digit_val c = of_char c - 48"

text \<open>
  \<^verbatim>\<open>int(s)\<close> for a string: blanks stripped at both ends, an optional sign, decimal
  digits with single underscores allowed between them. \<^verbatim>\<open>None\<close> stands for the
  \<^verbatim>\<open>ValueError\<close>. Strings are byte strings here, so blanks and digits outside ASCII
  are not recognised.
\<close>

definition py_space :: "char \<Rightarrow> bool" where
  "py_space c =
     (c \<in> set [CHR 0x09, CHR 0x0A, CHR 0x0B, CHR 0x0C, CHR 0x0D, CHR 0x1C, CHR 0x1D,
               CHR 0x1E, CHR 0x1F, CHR 0x20])"

definition py_strip :: "string \<Rightarrow> string" where
  "py_strip s = rev (dropWhile py_space (rev (dropWhile py_space s)))"

fun py_digits :: "string \<Rightarrow> nat \<Rightarrow> nat option" where
  "py_digits [] acc = Some acc"
| "py_digits [c] acc = (if is_digit c then Some (10 * acc + digit_val c) else None)"
| "py_digits (c # d # ds) acc =
     (if is_digit c then py_digits (d # ds) (10 * acc + digit_val c)
      else if c = CHR ''_'' \<and> is_digit d then py_digits ds (10 * acc + digit_val d)
      else None)"

definition py_unsigned :: "string \<Rightarrow> nat option" where
  "py_unsigned u =
     (case u of
        [] \<Rightarrow> None
      | d # ds \<Rightarrow> (if is_digit d then py_digits ds (digit_val d) else None))"

definition py_int_str :: "string \<Rightarrow> int option" where
  "py_int_str s =
     (case py_strip s of
        [] \<Rightarrow> None
      | c # r \<Rightarrow>
          (if c = CHR ''-'' then map_option (\<lambda>n. - int n) (py_unsigned r)
           else if c = CHR ''+'' then map_option int (py_unsigned r)
           else map_option int (py_unsigned (c # r))))"

section \<open>Reading a string as JSON\<close>

text \<open>
  \<^verbatim>\<open>json.loads(s, parse_int=str, parse_float=str)\<close> of the standard library, which
  the signing library applies to the key it verifies with. The values it can give: a
  number comes back as the text it was written with, so a number and a string are
  both \<open>JStr\<close>; \<^verbatim>\<open>NaN\<close> and the infinities are floats. \<^verbatim>\<open>None\<close> stands for any
  exception of the parser. Strings are UTF-8 byte strings; a lone surrogate written
  as \<^verbatim>\<open>\uXXXX\<close> is kept as its three-byte form, which no well-formed string
  contains.
\<close>

datatype pyjson =
    JNone
  | JBool bool
  | JFloat
  | JStr string
  | JList "pyjson list"
  | JDict "(string \<times> pyjson) list"

definition json_ws :: "char \<Rightarrow> bool" where
  "json_ws c = (c \<in> set [CHR 0x20, CHR 0x09, CHR 0x0A, CHR 0x0D])"

definition skip_ws :: "string \<Rightarrow> string" where
  "skip_ws s = dropWhile json_ws s"

text \<open>
  The number pattern \<^verbatim>\<open>(-?(?:0|[1-9]\d*))(\.\d+)?([eE][-+]?\d+)?\<close>, matched at the
  start of the text: the text matched and the rest.
\<close>

definition match_nat :: "string \<Rightarrow> (string \<times> string) option" where
  "match_nat s =
     (case s of
        [] \<Rightarrow> None
      | c # r \<Rightarrow>
          (if c = CHR ''0'' then Some ([c], r)
           else if is_digit c then Some (c # takeWhile is_digit r, dropWhile is_digit r)
           else None))"

definition match_int :: "string \<Rightarrow> (string \<times> string) option" where
  "match_int s =
     (case s of
        [] \<Rightarrow> None
      | c # r \<Rightarrow>
          (if c = CHR ''-'' then map_option (\<lambda>m. (c # fst m, snd m)) (match_nat r)
           else match_nat s))"

definition match_frac :: "string \<Rightarrow> string \<times> string" where
  "match_frac s =
     (case s of
        c # d # r \<Rightarrow>
          (if c = CHR ''.'' \<and> is_digit d
           then (c # d # takeWhile is_digit r, dropWhile is_digit r) else ([], s))
      | _ \<Rightarrow> ([], s))"

definition match_digits1 :: "string \<Rightarrow> (string \<times> string) option" where
  "match_digits1 s =
     (case s of
        [] \<Rightarrow> None
      | d # r \<Rightarrow> (if is_digit d then Some (d # takeWhile is_digit r, dropWhile is_digit r) else None))"

definition match_exp :: "string \<Rightarrow> string \<times> string" where
  "match_exp s =
     (case s of
        [] \<Rightarrow> ([], s)
      | e # r \<Rightarrow>
          (if e = CHR ''e'' \<or> e = CHR ''E'' then
             (case r of
                [] \<Rightarrow> ([], s)
              | g # r' \<Rightarrow>
                  (if g = CHR ''+'' \<or> g = CHR ''-'' then
                     (case match_digits1 r' of
                        None \<Rightarrow> ([], s)
                      | Some m \<Rightarrow> (e # g # fst m, snd m))
                   else
                     (case match_digits1 r of
                        None \<Rightarrow> ([], s)
                      | Some m \<Rightarrow> (e # fst m, snd m))))
           else ([], s)))"

definition match_number :: "string \<Rightarrow> (string \<times> string) option" where
  "match_number s =
     (case match_int s of
        None \<Rightarrow> None
      | Some i \<Rightarrow>
          (let f = match_frac (snd i); e = match_exp (snd f)
           in Some (fst i @ fst f @ fst e, snd e)))"

text \<open>
  The scalars, in the scanner's order: \<^verbatim>\<open>null\<close>, \<^verbatim>\<open>true\<close>, \<^verbatim>\<open>false\<close>, a number,
  \<^verbatim>\<open>NaN\<close>, \<^verbatim>\<open>Infinity\<close>, \<^verbatim>\<open>-Infinity\<close>.
\<close>

definition scan_scalar :: "string \<Rightarrow> (pyjson \<times> string) option" where
  "scan_scalar s =
     (if startswith s ''null'' then Some (JNone, drop 4 s)
      else if startswith s ''true'' then Some (JBool True, drop 4 s)
      else if startswith s ''false'' then Some (JBool False, drop 5 s)
      else
        (case match_number s of
           Some m \<Rightarrow> Some (JStr (fst m), snd m)
         | None \<Rightarrow>
             (if startswith s ''NaN'' then Some (JFloat, drop 3 s)
              else if startswith s ''Infinity'' then Some (JFloat, drop 8 s)
              else if startswith s ''-Infinity'' then Some (JFloat, drop 9 s)
              else None)))"

text \<open>UTF-8 of a code point; a surrogate takes the three-byte form.\<close>

definition utf8_encode :: "nat \<Rightarrow> string" where
  "utf8_encode cp =
     (if cp < 0x80 then [char_of cp]
      else if cp < 0x800 then [char_of (0xC0 + cp div 64), char_of (0x80 + cp mod 64)]
      else if cp < 0x10000 then
        [char_of (0xE0 + cp div 4096), char_of (0x80 + cp div 64 mod 64),
         char_of (0x80 + cp mod 64)]
      else
        [char_of (0xF0 + cp div 262144), char_of (0x80 + cp div 4096 mod 64),
         char_of (0x80 + cp div 64 mod 64), char_of (0x80 + cp mod 64)])"

definition hex_val :: "char \<Rightarrow> nat option" where
  "hex_val c =
     (if is_digit c then Some (digit_val c)
      else if c \<in> set ''abcdef'' then Some (of_char c - 87)
      else if c \<in> set ''ABCDEF'' then Some (of_char c - 55)
      else None)"

definition hex4 :: "string \<Rightarrow> nat option" where
  "hex4 s =
     (case s of
        a # b # c # d # _ \<Rightarrow>
          (case (hex_val a, hex_val b, hex_val c, hex_val d) of
             (Some w, Some x, Some y, Some z) \<Rightarrow> Some (4096 * w + 256 * x + 16 * y + z)
           | _ \<Rightarrow> None)
      | _ \<Rightarrow> None)"

definition simple_escape :: "char \<Rightarrow> char option" where
  "simple_escape e =
     (if e = CHR 0x22 then Some (CHR 0x22)
      else if e = CHR 0x5C then Some (CHR 0x5C)
      else if e = CHR ''/'' then Some (CHR ''/'')
      else if e = CHR ''b'' then Some (CHR 0x08)
      else if e = CHR ''f'' then Some (CHR 0x0C)
      else if e = CHR ''n'' then Some (CHR 0x0A)
      else if e = CHR ''r'' then Some (CHR 0x0D)
      else if e = CHR ''t'' then Some (CHR 0x09)
      else None)"

text \<open>
  After \<^verbatim>\<open>\uXXXX\<close> with a high surrogate: the low surrogate that follows, if one is
  written there as \<^verbatim>\<open>\uXXXX\<close>.
\<close>

definition low_surrogate :: "string \<Rightarrow> nat option" where
  "low_surrogate s =
     (case s of
        b # u # r \<Rightarrow>
          (if b = CHR 0x5C \<and> u = CHR ''u'' then
             (case hex4 r of
                Some lo \<Rightarrow> (if 0xDC00 \<le> lo \<and> lo \<le> 0xDFFF then Some lo else None)
              | None \<Rightarrow> None)
           else None)
      | _ \<Rightarrow> None)"

text \<open>
  A string, after its opening quote: its content and the text after the closing
  quote. A control character below 0x20 is an error, and so is an escape other than
  the eight simple ones and \<^verbatim>\<open>\uXXXX\<close>.
\<close>

function scanstring :: "string \<Rightarrow> (string \<times> string) option" where
  "scanstring [] = None"
| "scanstring (c # cs) =
     (if c = CHR 0x22 then Some ([], cs)
      else if c = CHR 0x5C then
        (case cs of
           [] \<Rightarrow> None
         | e # r \<Rightarrow>
             (if e = CHR ''u'' then
                (case hex4 r of
                   None \<Rightarrow> None
                 | Some hi \<Rightarrow>
                     (if 0xD800 \<le> hi \<and> hi \<le> 0xDBFF then
                        (case low_surrogate (drop 4 r) of
                           Some lo \<Rightarrow>
                             map_option
                               (\<lambda>m. (utf8_encode
                                        (0x10000 + (hi - 0xD800) * 1024 + (lo - 0xDC00)) @ fst m,
                                      snd m))
                               (scanstring (drop 10 r))
                         | None \<Rightarrow>
                             map_option (\<lambda>m. (utf8_encode hi @ fst m, snd m))
                               (scanstring (drop 4 r)))
                      else
                        map_option (\<lambda>m. (utf8_encode hi @ fst m, snd m))
                          (scanstring (drop 4 r))))
              else
                (case simple_escape e of
                   None \<Rightarrow> None
                 | Some x \<Rightarrow> map_option (\<lambda>m. (x # fst m, snd m)) (scanstring r))))
      else if (of_char c :: nat) < 0x20 then None
      else map_option (\<lambda>m. (c # fst m, snd m)) (scanstring cs))"
  by pat_completeness auto
termination
  by (relation "measure length") auto

text \<open>
  A value, the elements of an array after its first bracket, and the members of an
  object after its first brace. The first argument bounds the depth of the calls;
  \<open>json_loads\<close> starts with twice the length of the text and two, and the text
  gets shorter at least every second call.
\<close>

fun scan_once :: "nat \<Rightarrow> string \<Rightarrow> (pyjson \<times> string) option"
  and parse_array :: "nat \<Rightarrow> pyjson list \<Rightarrow> string \<Rightarrow> (pyjson \<times> string) option"
  and parse_object :: "nat \<Rightarrow> (string \<times> pyjson) list \<Rightarrow> string \<Rightarrow> (pyjson \<times> string) option"
where
  "scan_once 0 s = None"
| "scan_once (Suc n) s =
     (case s of
        [] \<Rightarrow> None
      | c # r \<Rightarrow>
          (if c = CHR 0x22 then map_option (\<lambda>m. (JStr (fst m), snd m)) (scanstring r)
           else if c = CHR ''{'' then
             (case skip_ws r of
                [] \<Rightarrow> None
              | d # r' \<Rightarrow> (if d = CHR ''}'' then Some (JDict [], r') else parse_object n [] (d # r')))
           else if c = CHR ''['' then
             (case skip_ws r of
                [] \<Rightarrow> None
              | d # r' \<Rightarrow> (if d = CHR '']'' then Some (JList [], r') else parse_array n [] (d # r')))
           else scan_scalar s))"
| "parse_array 0 acc s = None"
| "parse_array (Suc n) acc s =
     (case scan_once n s of
        None \<Rightarrow> None
      | Some v \<Rightarrow>
          (case skip_ws (snd v) of
             [] \<Rightarrow> None
           | d # r \<Rightarrow>
               (if d = CHR '']'' then Some (JList (acc @ [fst v]), r)
                else if d = CHR '','' then parse_array n (acc @ [fst v]) (skip_ws r)
                else None)))"
| "parse_object 0 acc s = None"
| "parse_object (Suc n) acc s =
     (case s of
        [] \<Rightarrow> None
      | q # r \<Rightarrow>
          (if q \<noteq> CHR 0x22 then None
           else
             (case scanstring r of
                None \<Rightarrow> None
              | Some k \<Rightarrow>
                  (case skip_ws (snd k) of
                     [] \<Rightarrow> None
                   | colon # r1 \<Rightarrow>
                       (if colon \<noteq> CHR '':'' then None
                        else
                          (case scan_once n (skip_ws r1) of
                             None \<Rightarrow> None
                           | Some v \<Rightarrow>
                               (case skip_ws (snd v) of
                                  [] \<Rightarrow> None
                                | d # r2 \<Rightarrow>
                                    (if d = CHR ''}'' then
                                       Some (JDict (AList.update (fst k) (fst v) acc), r2)
                                     else if d = CHR '','' then
                                       parse_object n (AList.update (fst k) (fst v) acc)
                                         (skip_ws r2)
                                     else None))))))))"

definition json_loads :: "string \<Rightarrow> pyjson option" where
  "json_loads s =
     (case scan_once (Suc (Suc (2 * length s))) (skip_ws s) of
        None \<Rightarrow> None
      | Some v \<Rightarrow> (if skip_ws (snd v) = [] then Some (fst v) else None))"

section \<open>The signing library\<close>

text \<open>
  \<^verbatim>\<open>jose.jwt\<close> is a library outside the repository. Its cryptography is modelled
  symbolically: the compact serialisation that \<^verbatim>\<open>jws.sign\<close> produces from a
  payload under a key and an HMAC algorithm is the term \<open>JWS alg key payload\<close>, and
  every other string is \<open>Garbage\<close>. Secrets are shared secrets, so only the HMAC
  algorithms sign and verify with them; any other algorithm name is refused.
\<close>

datatype token = JWS string string pydict | Garbage string

definition jose_hmac_algorithms :: "string list" where
  "jose_hmac_algorithms = [''HS256'', ''HS384'', ''HS512'']"

text \<open>
  The algorithm names \<^verbatim>\<open>jws.sign\<close> lets through its first check (version 3.3 of the
  library); with a shared secret the ones that are not HMAC fail later, at the key.
\<close>

definition jose_supported_algorithms :: "string list" where
  "jose_supported_algorithms =
     jose_hmac_algorithms
     @ [''RS256'', ''RS384'', ''RS512'', ''ES256'', ''ES384'', ''ES512'', ''dir'',
        ''A128CBC-HS256'', ''A192CBC-HS384'', ''A256CBC-HS512'', ''A128GCM'', ''A192GCM'',
        ''A256GCM'', ''RSA1_5'', ''RSA-OAEP'', ''RSA-OAEP-256'', ''A128KW'', ''A192KW'',
        ''A256KW'']"

text \<open>
  The key an HMAC is computed with (RFC 2104): a secret no longer than the block of
  the hash is padded with NUL bytes to the block, so NUL bytes at its end do not
  count; a longer secret is hashed first. Two secrets sign alike exactly when they
  prepare to the same key; that a digest of a long secret is nobody's short secret
  is the one assumption on the hash.
\<close>

datatype hmac_key = Padded string | Hashed string

definition hmac_block :: "string \<Rightarrow> nat" where
  "hmac_block alg = (if alg = ''HS256'' then 64 else 128)"

definition strip_nul :: "string \<Rightarrow> string" where
  "strip_nul k = rev (dropWhile (\<lambda>c. c = CHR 0x00) (rev k))"

definition hmac_prepare :: "string \<Rightarrow> string \<Rightarrow> hmac_key" where
  "hmac_prepare alg k = (if length k \<le> hmac_block alg then Padded (strip_nul k) else Hashed k)"

text \<open>
  \<^verbatim>\<open>HMACKey(key, algorithm)\<close> for a string: the string is encoded as UTF-8, which
  fails on a lone surrogate, and refused when it holds the marker of a public key or
  a certificate.
\<close>

fun utf8_encodable :: "string \<Rightarrow> bool" where
  "utf8_encodable (a # b # cs) =
     (\<not> (a = CHR 0xED \<and> 0xA0 \<le> (of_char b :: nat) \<and> (of_char b :: nat) \<le> 0xBF)
      \<and> utf8_encodable (b # cs))"
| "utf8_encodable _ = True"

definition hmac_invalid_strings :: "string list" where
  "hmac_invalid_strings =
     [''-----BEGIN PUBLIC KEY-----'', ''-----BEGIN RSA PUBLIC KEY-----'',
      ''-----BEGIN CERTIFICATE-----'', ''ssh-rsa'']"

definition HMACKey :: "string \<Rightarrow> string \<Rightarrow> exn + hmac_key" where
  "HMACKey key alg =
     (if \<not> utf8_encodable key then Inl UnicodeEncodeError
      else if list_ex (contains key) hmac_invalid_strings then Inl JWKError
      else Inr (hmac_prepare alg key))"

text \<open>
  \<^verbatim>\<open>base64url_decode\<close>: the text is padded with \<^verbatim>\<open>=\<close> to a multiple of four and
  decoded leniently, as \<^verbatim>\<open>binascii.a2b_base64\<close> does: characters outside the
  alphabet are skipped, padding that completes a group ends the decoding, and an
  incomplete group at the end is an error (\<^verbatim>\<open>None\<close>).
\<close>

definition b64_value :: "char \<Rightarrow> nat option" where
  "b64_value c =
     (let n = (of_char c :: nat)
      in if 65 \<le> n \<and> n \<le> 90 then Some (n - 65)
         else if 97 \<le> n \<and> n \<le> 122 then Some (n - 71)
         else if 48 \<le> n \<and> n \<le> 57 then Some (n + 4)
         else if c = CHR ''+'' \<or> c = CHR ''-'' then Some 62
         else if c = CHR ''/'' \<or> c = CHR ''_'' then Some 63
         else None)"

fun a2b_base64 :: "nat \<Rightarrow> nat \<Rightarrow> nat \<Rightarrow> string \<Rightarrow> string option" where
  "a2b_base64 quad_pos leftchar pads [] = (if quad_pos = 0 then Some [] else None)"
| "a2b_base64 quad_pos leftchar pads (c # cs) =
     (if c = CHR ''='' then
        (if 2 \<le> quad_pos then
           (if 4 \<le> quad_pos + (pads + 1) then Some []
            else a2b_base64 quad_pos leftchar (pads + 1) cs)
         else a2b_base64 quad_pos leftchar pads cs)
      else
        (case b64_value c of
           None \<Rightarrow> a2b_base64 quad_pos leftchar pads cs
         | Some v \<Rightarrow>
             (if quad_pos = 0 then a2b_base64 1 v 0 cs
              else if quad_pos = 1 then
                map_option (Cons (char_of (leftchar * 4 + v div 16)))
                  (a2b_base64 2 (v mod 16) 0 cs)
              else if quad_pos = 2 then
                map_option (Cons (char_of (leftchar * 16 + v div 4)))
                  (a2b_base64 3 (v mod 4) 0 cs)
              else
                map_option (Cons (char_of (leftchar * 64 + v))) (a2b_base64 0 0 0 cs))))"

definition base64url_decode :: "string \<Rightarrow> string option" where
  "base64url_decode input =
     (let rem = length input mod 4
      in a2b_base64 0 0 0 (if 0 < rem then input @ replicate (4 - rem) CHR ''='' else input))"

text \<open>
  \<^verbatim>\<open>jwk.construct(key, alg)\<close> for an HMAC algorithm. A string is a secret. A
  dictionary is a JWK: its \<^verbatim>\<open>kty\<close> must be \<^verbatim>\<open>oct\<close> and its \<^verbatim>\<open>k\<close> is the secret
  in base64url; a \<^verbatim>\<open>k\<close> that is not a string has no \<^verbatim>\<open>encode\<close>. Anything else
  is no key.
\<close>

definition jwk_construct :: "pyjson \<Rightarrow> string \<Rightarrow> exn + hmac_key" where
  "jwk_construct key_data alg =
     (case key_data of
        JStr s \<Rightarrow> HMACKey s alg
      | JDict d \<Rightarrow>
          (if map_of d ''kty'' \<noteq> Some (JStr ''oct'') then Inl JWKError
           else
             (case map_of d ''k'' of
                Some (JStr k) \<Rightarrow>
                  (if \<not> utf8_encodable k then Inl UnicodeEncodeError
                   else
                     (case base64url_decode k of
                        None \<Rightarrow> Inl BinasciiError
                      | Some bytes \<Rightarrow> Inr (hmac_prepare alg bytes)))
              | _ \<Rightarrow> Inl AttributeError))
      | _ \<Rightarrow> Inl JWKError)"

text \<open>
  \<^verbatim>\<open>jwt.encode\<close> first turns a \<^verbatim>\<open>datetime\<close> under \<^verbatim>\<open>exp\<close>, \<^verbatim>\<open>iat\<close> or \<^verbatim>\<open>nbf\<close>
  into whole seconds, then signs. \<^verbatim>\<open>jws.sign\<close> checks the algorithm, encodes the
  payload (\<^verbatim>\<open>json.dumps\<close> raises \<^verbatim>\<open>TypeError\<close> on a \<^verbatim>\<open>datetime\<close> left anywhere
  else) and signs with the key as it is given; whatever the key raises there comes
  out as a \<^verbatim>\<open>JWSError\<close>.
\<close>

definition convert_time_claim :: "string \<times> pyval \<Rightarrow> string \<times> pyval" where
  "convert_time_claim kv =
     (case snd kv of
        PyDatetime d \<Rightarrow>
          (if fst kv \<in> set [''exp'', ''iat'', ''nbf''] then (fst kv, PyInt (timegm d)) else kv)
      | _ \<Rightarrow> kv)"

fun json_serializable :: "pyval \<Rightarrow> bool" where
  "json_serializable (PyDatetime _) = False"
| "json_serializable _ = True"

definition jws_sign :: "pydict \<Rightarrow> string \<Rightarrow> string \<Rightarrow> exn + token" where
  "jws_sign payload key algorithm =
     (if algorithm \<notin> set jose_supported_algorithms then Inl JWSError
      else if list_ex (\<lambda>kv. \<not> json_serializable (snd kv)) payload then Inl TypeError
      else if algorithm \<notin> set jose_hmac_algorithms then Inl JWSError
      else
        (case HMACKey key algorithm of
           Inl e \<Rightarrow> Inl JWSError
         | Inr k \<Rightarrow> Inr (JWS algorithm key payload)))"

definition jwt_encode :: "pydict \<Rightarrow> string \<Rightarrow> string \<Rightarrow> exn + token" where
  "jwt_encode claims key algorithm = jws_sign (map convert_time_claim claims) key algorithm"

text \<open>
  \<^verbatim>\<open>jws._get_keys(key)\<close>: the key is read as JSON when it can be. A dictionary
  gives the value under \<^verbatim>\<open>keys\<close> if it has one, itself if it has a \<^verbatim>\<open>kty\<close>, its
  values otherwise (itself when it is empty); a list gives its elements; anything
  else, and a key that is not JSON, is a single key. The result is iterated: a
  string gives its characters, a dictionary its keys, and \<^verbatim>\<open>None\<close>, a boolean or a
  float cannot be iterated (\<^verbatim>\<open>TypeError\<close>, here \<^verbatim>\<open>None\<close>).
\<close>

definition utf8_continuation :: "char \<Rightarrow> bool" where
  "utf8_continuation b = (0x80 \<le> (of_char b :: nat) \<and> (of_char b :: nat) < 0xC0)"

fun utf8_chars :: "string \<Rightarrow> string list" where
  "utf8_chars [] = []"
| "utf8_chars (c # cs) =
     (case utf8_chars cs of
        [] \<Rightarrow> [[c]]
      | w # ws \<Rightarrow>
          (case w of
             [] \<Rightarrow> [c] # ws
           | b # _ \<Rightarrow> (if utf8_continuation b then (c # w) # ws else [c] # w # ws)))"

definition py_iter :: "pyjson \<Rightarrow> pyjson list option" where
  "py_iter v =
     (case v of
        JList l \<Rightarrow> Some l
      | JStr s \<Rightarrow> Some (map JStr (utf8_chars s))
      | JDict d \<Rightarrow> Some (map (\<lambda>kv. JStr (fst kv)) d)
      | _ \<Rightarrow> None)"

definition get_keys :: "string \<Rightarrow> pyjson list option" where
  "get_keys key =
     (case json_loads key of
        None \<Rightarrow> Some [JStr key]
      | Some (JDict d) \<Rightarrow>
          (case map_of d ''keys'' of
             Some ks \<Rightarrow> py_iter ks
           | None \<Rightarrow>
               (if map_of d ''kty'' \<noteq> None then Some [JDict d]
                else if d \<noteq> [] then Some (map snd d)
                else Some [JDict d]))
      | Some (JList l) \<Rightarrow> Some l
      | Some v \<Rightarrow> Some [v])"

text \<open>
  \<^verbatim>\<open>_sig_matches_keys\<close>: the keys are tried in turn; a key that cannot be
  constructed raises, a key that verifies ends the search.
\<close>

fun sig_matches_keys :: "pyjson list \<Rightarrow> hmac_key \<Rightarrow> string \<Rightarrow> exn + bool" where
  "sig_matches_keys [] signer alg = Inr False"
| "sig_matches_keys (key # keys) signer alg =
     (case jwk_construct key alg of
        Inl e \<Rightarrow> Inl e
      | Inr k \<Rightarrow> (if k = signer then Inr True else sig_matches_keys keys signer alg))"

text \<open>
  The claim validators of \<^verbatim>\<open>jwt.decode\<close>, in the library's order: \<^verbatim>\<open>iat\<close>,
  \<^verbatim>\<open>nbf\<close>, \<^verbatim>\<open>exp\<close>, \<^verbatim>\<open>aud\<close>, \<^verbatim>\<open>sub\<close>, \<^verbatim>\<open>jti\<close>, \<^verbatim>\<open>at_hash\<close>; no audience,
  issuer, subject or access token is passed by the callers. \<open>now\<close> is the library's own
  clock reading in whole seconds. A token is expired when \<^verbatim>\<open>exp < now\<close>. A time claim
  goes through \<^verbatim>\<open>int(...)\<close>, whose \<^verbatim>\<open>ValueError\<close> becomes a \<^verbatim>\<open>JWTClaimsError\<close>.
\<close>

definition py_int :: "pyval \<Rightarrow> exn + int" where
  "py_int v =
     (case v of
        PyInt n \<Rightarrow> Inr n
      | PyStr s \<Rightarrow> (case py_int_str s of None \<Rightarrow> Inl ValueError | Some n \<Rightarrow> Inr n)
      | PyDatetime d \<Rightarrow> Inl TypeError)"

definition int_claim :: "pyval \<Rightarrow> exn + int" where
  "int_claim v =
     (case py_int v of
        Inl e \<Rightarrow> (if e = ValueError then Inl JWTClaimsError else Inl e)
      | Inr n \<Rightarrow> Inr n)"

definition validate_iat :: "pydict \<Rightarrow> exn option" where
  "validate_iat claims =
     (case map_of claims ''iat'' of
        None \<Rightarrow> None
      | Some v \<Rightarrow> (case int_claim v of Inl e \<Rightarrow> Some e | Inr iat \<Rightarrow> None))"

definition validate_nbf :: "pydict \<Rightarrow> int \<Rightarrow> exn option" where
  "validate_nbf claims now =
     (case map_of claims ''nbf'' of
        None \<Rightarrow> None
      | Some v \<Rightarrow>
          (case int_claim v of
             Inl e \<Rightarrow> Some e
           | Inr nbf \<Rightarrow> (if nbf > now then Some JWTClaimsError else None)))"

definition validate_exp :: "pydict \<Rightarrow> int \<Rightarrow> exn option" where
  "validate_exp claims now =
     (case map_of claims ''exp'' of
        None \<Rightarrow> None
      | Some v \<Rightarrow>
          (case int_claim v of
             Inl e \<Rightarrow> Some e
           | Inr exp \<Rightarrow> (if exp < now then Some ExpiredSignatureError else None)))"

definition validate_aud :: "pydict \<Rightarrow> exn option" where
  "validate_aud claims =
     (case map_of claims ''aud'' of None \<Rightarrow> None | Some _ \<Rightarrow> Some JWTClaimsError)"

definition validate_sub :: "pydict \<Rightarrow> exn option" where
  "validate_sub claims =
     (case map_of claims ''sub'' of
        None \<Rightarrow> None
      | Some (PyStr _) \<Rightarrow> None
      | Some _ \<Rightarrow> Some JWTClaimsError)"

definition validate_jti :: "pydict \<Rightarrow> exn option" where
  "validate_jti claims =
     (case map_of claims ''jti'' of
        None \<Rightarrow> None
      | Some (PyStr _) \<Rightarrow> None
      | Some _ \<Rightarrow> Some JWTClaimsError)"

definition validate_at_hash :: "pydict \<Rightarrow> exn option" where
  "validate_at_hash claims =
     (case map_of claims ''at_hash'' of None \<Rightarrow> None | Some _ \<Rightarrow> Some JWTClaimsError)"

fun first_error :: "exn option list \<Rightarrow> exn option" where
  "first_error [] = None"
| "first_error (None # rest) = first_error rest"
| "first_error (Some e # rest) = Some e"

definition validate_claims :: "pydict \<Rightarrow> bool \<Rightarrow> int \<Rightarrow> exn option" where
  "validate_claims claims verify_exp now =
     first_error
       [validate_iat claims,
        validate_nbf claims now,
        (if verify_exp then validate_exp claims now else None),
        validate_aud claims,
        validate_sub claims,
        validate_jti claims,
        validate_at_hash claims]"

text \<open>
  \<^verbatim>\<open>jwt.decode(token, key, algorithms=..., options={"verify_exp": ...})\<close>. A
  signature that no key matches, like any other \<^verbatim>\<open>JWSError\<close> of \<^verbatim>\<open>jws.verify\<close>, is
  re-raised as \<^verbatim>\<open>JWTError\<close>; what the keys themselves raise is not a
  \<^verbatim>\<open>JWSError\<close> and goes through. Then the claims are validated.
\<close>

fun jwt_decode :: "token \<Rightarrow> string \<Rightarrow> string list \<Rightarrow> bool \<Rightarrow> int \<Rightarrow> exn + pydict" where
  "jwt_decode (Garbage s) key algorithms verify_exp now = Inl JWTError"
| "jwt_decode (JWS alg signing_key payload) key algorithms verify_exp now =
     (if alg \<notin> set algorithms then Inl JWTError
      else if alg \<notin> set jose_hmac_algorithms then Inl JWTError
      else
        (case get_keys key of
           None \<Rightarrow> Inl TypeError
         | Some keys \<Rightarrow>
             (case sig_matches_keys keys (hmac_prepare alg signing_key) alg of
                Inl e \<Rightarrow> Inl e
              | Inr matches \<Rightarrow>
                  (if \<not> matches then Inl JWTError
                   else
                     (case validate_claims payload verify_exp now of
                        Some e \<Rightarrow> Inl e
                      | None \<Rightarrow> Inr payload)))))"

text \<open>
  A secret that the library reads as the one key it is: its text does not begin a
  JSON string, array or object, and read as JSON it is either no JSON at all or a
  number written exactly as the secret.
\<close>

definition plain_secret :: "string \<Rightarrow> bool" where
  "plain_secret k =
     ((case skip_ws k of [] \<Rightarrow> True | c # r \<Rightarrow> c \<notin> set [CHR 0x22, CHR ''['', CHR ''{''])
      \<and> json_loads k \<in> set [None, Some (JStr k)])"

section \<open>Issuing tokens\<close>

text \<open>
  \<^verbatim>\<open>user_id: Union[str, UUID]\<close>. A UUID is its 128-bit integer; \<^verbatim>\<open>str\<close> of it is
  the 32 lower-case hexadecimal digits in groups of 8, 4, 4, 4 and 12.
\<close>

datatype str_or_uuid = IsStr string | IsUUID "128 word"

definition hex_digit :: "nat \<Rightarrow> char" where
  "hex_digit n = ''0123456789abcdef'' ! (n mod 16)"

definition uuid_hex :: "128 word \<Rightarrow> string" where
  "uuid_hex w = map (\<lambda>i. hex_digit (unat (drop_bit (4 * (31 - i)) w AND 15))) [0..<32]"

definition str_UUID :: "128 word \<Rightarrow> string" where
  "str_UUID w =
     (let hex = uuid_hex w
      in take 8 hex @ ''-'' @ take 4 (drop 8 hex) @ ''-'' @ take 4 (drop 12 hex) @ ''-''
         @ take 4 (drop 16 hex) @ ''-'' @ drop 20 hex)"

text \<open>
  \<^verbatim>\<open>create_access_token(data, expires_minutes=None)\<close>, the single-secret helper. The
  clock is read twice, once for the expiry (\<open>now_expire\<close>) and once for \<^verbatim>\<open>iat\<close>
  (\<open>now_iat\<close>). \<^verbatim>\<open>if expires_minutes:\<close> is Python truthiness: \<^verbatim>\<open>None\<close> and \<^verbatim>\<open>0\<close>
  both take the configured default; \<open>expires_minutes\<close> is an integer, as annotated
  (\<^verbatim>\<open>Optional[int]\<close>). Nothing here catches an exception.
\<close>

definition create_access_token ::
  "settings \<Rightarrow> datetime \<Rightarrow> datetime \<Rightarrow> pydict \<Rightarrow> int option \<Rightarrow> exn + token" where
  "create_access_token settings now_expire now_iat data expires_minutes =
     (let to_encode = data in
      case (case expires_minutes of
              Some m \<Rightarrow>
                (if m \<noteq> 0 then timedelta_minutes m
                 else timedelta_minutes (ACCESS_TOKEN_EXPIRE_MINUTES settings))
            | None \<Rightarrow> timedelta_minutes (ACCESS_TOKEN_EXPIRE_MINUTES settings)) of
        Inl e \<Rightarrow> Inl e
      | Inr td \<Rightarrow>
          (case datetime_add now_expire td of
             Inl e \<Rightarrow> Inl e
           | Inr expire \<Rightarrow>
               jwt_encode
                 (AList.update ''iat'' (PyDatetime now_iat)
                    (AList.update ''exp'' (PyDatetime expire) to_encode))
                 (SECRET_KEY settings) (ALGORITHM settings)))"

text \<open>
  Lines 122 to 132 of \<^verbatim>\<open>create_token\<close>: the expiry. \<^verbatim>\<open>if expires_delta:\<close> is
  truthiness again, and a \<^verbatim>\<open>timedelta\<close> is false exactly when it is zero.
\<close>

definition create_token_expire ::
  "settings \<Rightarrow> datetime \<Rightarrow> TokenType \<Rightarrow> timedelta option \<Rightarrow> exn + datetime" where
  "create_token_expire settings now_expire token_type expires_delta =
     (let default =
        (if token_type = ACCESS then
           (case timedelta_minutes (ACCESS_TOKEN_EXPIRE_MINUTES settings) of
              Inl e \<Rightarrow> Inl e
            | Inr td \<Rightarrow> datetime_add now_expire td)
         else
           (case timedelta_days (REFRESH_TOKEN_EXPIRE_DAYS settings) of
              Inl e \<Rightarrow> Inl e
            | Inr td \<Rightarrow> datetime_add now_expire td))
      in case expires_delta of
           Some td \<Rightarrow> (if td \<noteq> 0 then datetime_add now_expire td else default)
         | None \<Rightarrow> default)"

text \<open>
  \<^verbatim>\<open>create_token(user_id, token_type, expires_delta=None)\<close>. \<open>token_hex\<close> is the
  result of \<^verbatim>\<open>secrets.token_hex(16)\<close>. Only \<^verbatim>\<open>jwt.encode\<close> is inside the
  \<^verbatim>\<open>try\<close>: its failure becomes a 500, an overflow of the expiry goes through.
\<close>

definition create_token ::
  "settings \<Rightarrow> datetime \<Rightarrow> datetime \<Rightarrow> string \<Rightarrow> str_or_uuid \<Rightarrow> TokenType \<Rightarrow>
   timedelta option \<Rightarrow> exn + token" where
  "create_token settings now_expire now_iat token_hex user_id token_type expires_delta =
     (case create_token_expire settings now_expire token_type expires_delta of
        Inl e \<Rightarrow> Inl e
      | Inr expire \<Rightarrow>
          (let user_id' = (case user_id of IsUUID u \<Rightarrow> str_UUID u | IsStr s \<Rightarrow> s);
               to_encode =
                 [(''sub'', PyStr user_id'),
                  (''type'', PyStr (TokenType_value token_type)),
                  (''exp'', PyDatetime expire),
                  (''iat'', PyDatetime now_iat),
                  (''jti'', PyStr token_hex)];
               secret =
                 (if token_type = ACCESS then JWT_SECRET_KEY settings
                  else JWT_REFRESH_SECRET_KEY settings)
           in case jwt_encode to_encode secret (ALGORITHM settings) of
                Inl e \<Rightarrow> Inl (HTTPException 500 (LitStr ''Could not create token: '' e) [])
              | Inr encoded \<Rightarrow> Inr encoded))"

section \<open>Verifying tokens\<close>

text \<open>
  \<^verbatim>\<open>decode_token(token, token_type, verify_exp=True)\<close>. \<open>is_blacklisted\<close> is the
  lookup of \<^verbatim>\<open>app/auth/redis.py\<close>, which is not among the sources: it is a parameter,
  the answer of the revocation store at the time of the call. \<open>now\<close> is the clock
  reading of \<^verbatim>\<open>jwt.decode\<close> in whole seconds. The two \<^verbatim>\<open>except\<close> clauses catch
  \<^verbatim>\<open>ExpiredSignatureError\<close> first and any other \<^verbatim>\<open>JWTError\<close> second; the
  \<^verbatim>\<open>HTTPException\<close>s raised inside the \<^verbatim>\<open>try\<close>, the \<^verbatim>\<open>KeyError\<close> of
  \<^verbatim>\<open>payload["jti"]\<close> and whatever else \<^verbatim>\<open>jwt.decode\<close> lets through (the error of
  a verifying key that is no key) are neither and leave the function as they are.
\<close>

definition decode_token ::
  "settings \<Rightarrow> (pyval \<Rightarrow> bool) \<Rightarrow> int \<Rightarrow> token \<Rightarrow> TokenType \<Rightarrow> bool \<Rightarrow> exn + pydict" where
  "decode_token settings is_blacklisted now tok token_type verify_exp =
     (let secret =
        (if token_type = ACCESS then JWT_SECRET_KEY settings
         else JWT_REFRESH_SECRET_KEY settings)
      in case jwt_decode tok secret [ALGORITHM settings] verify_exp now of
           Inl e \<Rightarrow>
             (if e = ExpiredSignatureError then
                Inl (HTTPException 401 (Lit ''Token has expired'') bearer)
              else if is_JWTError e then
                Inl (HTTPException 401 (Lit ''Could not validate credentials'') bearer)
              else Inl e)
         | Inr payload \<Rightarrow>
             (if map_of payload ''type'' \<noteq> Some (PyStr (TokenType_value token_type)) then
                Inl (HTTPException 401 (Lit ''Invalid token type'') bearer)
              else
                (case map_of payload ''jti'' of
                   None \<Rightarrow> Inl (KeyError ''jti'')
                 | Some jti \<Rightarrow>
                     (if is_blacklisted jti then
                        Inl (HTTPException 401 (Lit ''Token has been revoked'') bearer)
                      else Inr payload))))"

text \<open>
  \<^verbatim>\<open>get_current_user(token, db)\<close>. The \<^verbatim>\<open>User\<close> model is outside the sources: a
  record with the two fields the function reads. \<open>db\<close> stands for
  \<^verbatim>\<open>db.query(User).filter(User.id == user_id).first()\<close>. The whole body is inside
  \<^verbatim>\<open>try ... except Exception as e\<close>, which re-raises everything, the function's own
  404 and 400 included, as a 401 whose detail is \<^verbatim>\<open>str(e)\<close>.
\<close>

record user =
  user_id :: string
  is_active :: bool

definition unauthorized :: "exn \<Rightarrow> exn" where
  "unauthorized e = HTTPException 401 (Str e) bearer"

definition get_current_user ::
  "settings \<Rightarrow> (pyval \<Rightarrow> bool) \<Rightarrow> int \<Rightarrow> (pyval \<Rightarrow> user option) \<Rightarrow> token \<Rightarrow> exn + user" where
  "get_current_user settings is_blacklisted now db tok =
     (case decode_token settings is_blacklisted now tok ACCESS True of
        Inl e \<Rightarrow> Inl (unauthorized e)
      | Inr payload \<Rightarrow>
          (case map_of payload ''sub'' of
             None \<Rightarrow> Inl (unauthorized (KeyError ''sub''))
           | Some uid \<Rightarrow>
               (case db uid of
                  None \<Rightarrow> Inl (unauthorized (HTTPException 404 (Lit ''User not found'') []))
                | Some u \<Rightarrow>
                    (if \<not> is_active u then
                       Inl (unauthorized (HTTPException 400 (Lit ''Inactive user'') []))
                     else Inr u))))"

section \<open>The credential hasher\<close>

text \<open>
  \<^verbatim>\<open>pwd_context = CryptContext(schemes=["bcrypt"], ...)\<close> of the library passlib,
  outside the repository. \<^verbatim>\<open>CryptContext.verify\<close> first identifies the scheme of the
  hash by its prefix and raises \<^verbatim>\<open>UnknownHashError\<close> when no configured scheme
  claims it; the scheme then parses the string (\<^verbatim>\<open>bcrypt.from_string\<close>) and raises
  a \<^verbatim>\<open>ValueError\<close> (of one subclass or another) on whatever does not parse; only
  then is the digest of the password computed and compared. A password of more than
  4096 characters is refused before the hash is parsed, one with a NUL byte when the
  digest is computed, both with a \<^verbatim>\<open>ValueError\<close>. The digest itself is a parameter,
  \<open>calc_checksum\<close>.
\<close>

fun split_on :: "char \<Rightarrow> string \<Rightarrow> string list" where
  "split_on c [] = [[]]"
| "split_on c (x # xs) =
     (if x = c then [] # split_on c xs
      else (case split_on c xs of [] \<Rightarrow> [[x]] | w # ws \<Rightarrow> (x # w) # ws))"

definition bcrypt_ident_values :: "string list" where
  "bcrypt_ident_values = [''$2$'', ''$2a$'', ''$2x$'', ''$2y$'', ''$2b$'']"

definition bcrypt64_chars :: string where
  "bcrypt64_chars = ''./ABCDEFGHIJKLMNOPQRSTUVWXYZabcdefghijklmnopqrstuvwxyz0123456789''"

record bcrypt =
  ident :: string
  rounds :: nat
  salt :: string
  checksum :: "string option"

definition bcrypt_identify :: "string \<Rightarrow> bool" where
  "bcrypt_identify hash = list_ex (startswith hash) bcrypt_ident_values"

text \<open>
  The cost field must be what \<^verbatim>\<open>'%02d'\<close> prints: for the costs bcrypt allows (4 to
  31) that is two decimal digits.
\<close>

definition parse_cost :: "string \<Rightarrow> nat option" where
  "parse_cost rounds_str =
     (case rounds_str of
        [a, b] \<Rightarrow> (if is_digit a \<and> is_digit b then Some (10 * digit_val a + digit_val b) else None)
      | _ \<Rightarrow> None)"

definition bcrypt_from_string :: "string \<Rightarrow> exn + bcrypt" where
  "bcrypt_from_string hash =
     (case List.find (startswith hash) bcrypt_ident_values of
        None \<Rightarrow> Inl ValueError
      | Some idt \<Rightarrow>
          (if idt = ''$2x$'' then Inl ValueError
           else
             (case split_on CHR ''$'' (drop (length idt) hash) of
                [rounds_str, data] \<Rightarrow>
                  (case parse_cost rounds_str of
                     None \<Rightarrow> Inl ValueError
                   | Some r \<Rightarrow>
                       (let slt = take 22 data; chk = drop 22 data
                        in if r < 4 then Inl ValueError
                           else if 31 < r then Inl ValueError
                           else if length slt < 22 then Inl ValueError
                           else if list_ex (\<lambda>c. c \<notin> set bcrypt64_chars) slt then Inl ValueError
                           else if chk = [] then
                             Inr \<lparr>ident = idt, rounds = r, salt = slt, checksum = None\<rparr>
                           else if length chk \<noteq> 31 then Inl ValueError
                           else if list_ex (\<lambda>c. c \<notin> set bcrypt64_chars) chk then Inl ValueError
                           else Inr \<lparr>ident = idt, rounds = r, salt = slt, checksum = Some chk\<rparr>))
              | _ \<Rightarrow> Inl ValueError)))"

definition pwd_context_verify ::
  "(bcrypt \<Rightarrow> string \<Rightarrow> string) \<Rightarrow> string \<Rightarrow> string \<Rightarrow> exn + bool" where
  "pwd_context_verify calc_checksum secret hash =
     (if \<not> bcrypt_identify hash then Inl UnknownHashError
      else if 4096 < length secret then Inl ValueError
      else
        (case bcrypt_from_string hash of
           Inl e \<Rightarrow> Inl e
         | Inr h \<Rightarrow>
             (case checksum h of
                None \<Rightarrow> Inl ValueError
              | Some chk \<Rightarrow>
                  (if CHR 0x00 \<in> set secret then Inl ValueError
                   else Inr (calc_checksum h secret = chk)))))"

text \<open>\<^verbatim>\<open>verify_password(plain, hashed)\<close>: the library's answer, with nothing caught.\<close>

definition verify_password ::
  "(bcrypt \<Rightarrow> string \<Rightarrow> string) \<Rightarrow> string \<Rightarrow> string \<Rightarrow> exn + bool" where
  "verify_password calc_checksum plain hashed = pwd_context_verify calc_checksum plain hashed"

text \<open>
  A well-formed bcrypt hash, in the words of the claim about malformed hashes and
  independent of the parser above: one of the identifiers \<^verbatim>\<open>$2$\<close>, \<^verbatim>\<open>$2a$\<close>,
  \<^verbatim>\<open>$2y$\<close>, \<^verbatim>\<open>$2b$\<close>, a two-digit cost from 04 to 31, a dollar sign, and 53
  characters of the bcrypt alphabet (22 of salt, 31 of digest).
\<close>

definition well_formed_tail :: "string \<Rightarrow> bool" where
  "well_formed_tail t =
     (length t = 56 \<and> is_digit (t ! 0) \<and> is_digit (t ! 1) \<and> t ! 2 = CHR ''$''
      \<and> 4 \<le> 10 * digit_val (t ! 0) + digit_val (t ! 1)
      \<and> 10 * digit_val (t ! 0) + digit_val (t ! 1) \<le> 31
      \<and> list_all (\<lambda>c. c \<in> set bcrypt64_chars) (drop 3 t))"

definition well_formed_bcrypt :: "string \<Rightarrow> bool" where
  "well_formed_bcrypt hash =
     list_ex (\<lambda>idt. startswith hash idt \<and> well_formed_tail (drop (length idt) hash))
       [''$2$'', ''$2a$'', ''$2y$'', ''$2b$'']"

section \<open>Reading a token, and the examples used below\<close>

text \<open>
  The claim a token carries under a name, read without any verification (what
  \<^verbatim>\<open>jwt.get_unverified_claims\<close> would show): the statements below use it to speak of
  a token's \<^verbatim>\<open>exp\<close>, \<^verbatim>\<open>iat\<close> and \<^verbatim>\<open>jti\<close>.
\<close>

fun token_claim :: "token \<Rightarrow> string \<Rightarrow> pyval option" where
  "token_claim (JWS alg key payload) k = map_of payload k"
| "token_claim (Garbage s) k = None"

fun get_unverified_claims :: "token \<Rightarrow> pydict" where
  "get_unverified_claims (JWS alg key payload) = payload"
| "get_unverified_claims (Garbage s) = []"

text \<open>
  Three configurations: one with the three secrets apart, one with a single secret
  for all three, and one whose access secret is the JSON text \<^verbatim>\<open>[123]\<close>. A clock
  reading; a token identifier; a revocation store holding a list of identifiers and
  one holding every identifier; three user tables (one with \<^verbatim>\<open>alice\<close> active, one
  with her inactive, one empty); a digest function; and the access token for
  \<^verbatim>\<open>alice\<close> that the examples issue and verify.
\<close>

definition demo_settings :: settings where
  "demo_settings =
     \<lparr>SECRET_KEY = ''simple-secret'', JWT_SECRET_KEY = ''access-secret'',
      JWT_REFRESH_SECRET_KEY = ''refresh-secret'', ALGORITHM = ''HS256'',
      ACCESS_TOKEN_EXPIRE_MINUTES = 30, REFRESH_TOKEN_EXPIRE_DAYS = 7\<rparr>"

definition shared_settings :: settings where
  "shared_settings =
     \<lparr>SECRET_KEY = ''one-secret'', JWT_SECRET_KEY = ''one-secret'',
      JWT_REFRESH_SECRET_KEY = ''one-secret'', ALGORITHM = ''HS256'',
      ACCESS_TOKEN_EXPIRE_MINUTES = 30, REFRESH_TOKEN_EXPIRE_DAYS = 7\<rparr>"

definition json_settings :: settings where
  "json_settings =
     \<lparr>SECRET_KEY = ''simple-secret'', JWT_SECRET_KEY = ''[123]'',
      JWT_REFRESH_SECRET_KEY = ''refresh-secret'', ALGORITHM = ''HS256'',
      ACCESS_TOKEN_EXPIRE_MINUTES = 30, REFRESH_TOKEN_EXPIRE_DAYS = 7\<rparr>"

definition demo_now :: datetime where
  "demo_now = 1700000000250000"

definition demo_jti :: string where
  "demo_jti = ''00112233445566778899aabbccddeeff''"

definition blacklist_of :: "string list \<Rightarrow> pyval \<Rightarrow> bool" where
  "blacklist_of ids jti = (case jti of PyStr j \<Rightarrow> j \<in> set ids | _ \<Rightarrow> False)"

definition revoke_all :: "pyval \<Rightarrow> bool" where
  "revoke_all jti = True"

definition demo_token :: "string \<Rightarrow> int \<Rightarrow> int \<Rightarrow> token" where
  "demo_token key exp iat =
     JWS ''HS256'' key
       [(''sub'', PyStr ''alice''), (''type'', PyStr ''access''), (''exp'', PyInt exp),
        (''iat'', PyInt iat), (''jti'', PyStr demo_jti)]"




definition demo_checksum :: "bcrypt \<Rightarrow> string \<Rightarrow> string" where
  "demo_checksum h secret = ''...............................''"

section \<open>The bound of the JSON reader\<close>

text \<open>
  The reader of arrays and objects recurses on a bound; the lemmas of this section show
  that the bound \<^const>\<open>json_loads\<close> starts with is never reached, so that the
  reading is the one of the unbounded scanner.
\<close>

lemma skip_ws_length: "length (skip_ws s) \<le> length s"
  by (simp add: skip_ws_def length_dropWhile_le)

lemma scanstring_shorter: "scanstring s = Some (a, b) \<Longrightarrow> length b < length s"
proof (induction s arbitrary: a b rule: length_induct)
  case (1 s)
  then have IH: "\<And>t x y. length t < length s \<Longrightarrow> scanstring t = Some (x, y) \<Longrightarrow> length y < length t"
    by blast
  show ?case
  proof (cases s)
    case Nil
    with "1.prems" show ?thesis by simp
  next
    case (Cons c cs)
    from "1.prems" Cons consider "b = cs"
      | t x where "scanstring t = Some (x, b)" "length t \<le> length cs"
      by (auto split: if_splits list.splits option.splits)
    then show ?thesis
    proof cases
      case 1
      with Cons show ?thesis by simp
    next
      case 2
      from IH [OF _ 2(1)] 2(2) Cons show ?thesis by simp
    qed
  qed
qed

lemma match_nat_shorter: "match_nat s = Some m \<Longrightarrow> length (snd m) < length s"
  by (auto simp: match_nat_def length_dropWhile_le less_Suc_eq_le split: list.splits if_splits)

lemma match_int_shorter: "match_int s = Some m \<Longrightarrow> length (snd m) < length s"
  by (auto simp: match_int_def split: list.splits if_splits dest!: match_nat_shorter)

lemma match_frac_length: "length (snd (match_frac s)) \<le> length s"
  by (auto simp: match_frac_def le_SucI length_dropWhile_le split: list.splits)

lemma match_digits1_shorter: "match_digits1 s = Some m \<Longrightarrow> length (snd m) < length s"
  by (auto simp: match_digits1_def length_dropWhile_le less_Suc_eq_le split: list.splits if_splits)

lemma match_exp_length: "length (snd (match_exp s)) \<le> length s"
  by (auto simp: match_exp_def split: list.splits option.splits dest!: match_digits1_shorter)

lemma match_number_shorter:
  assumes "match_number s = Some m"
  shows "length (snd m) < length s"
proof -
  from assms obtain i where i: "match_int s = Some i"
    and m: "snd m = snd (match_exp (snd (match_frac (snd i))))"
    by (auto simp: match_number_def Let_def split: option.splits)
  have "length (snd m) \<le> length (snd (match_frac (snd i)))"
    unfolding m by (rule match_exp_length)
  also have "\<dots> \<le> length (snd i)"
    by (rule match_frac_length)
  also have "\<dots> < length s"
    using i by (rule match_int_shorter)
  finally show ?thesis .
qed

lemma startswith_nonempty: "startswith s (c # p) \<Longrightarrow> 0 < length s"
  by (cases s) (simp_all add: startswith_def)

lemma scan_scalar_shorter:
  assumes "scan_scalar s = Some m"
  shows "length (snd m) < length s"
proof (cases "match_number s")
  case (Some n)
  with assms match_number_shorter [OF Some] show ?thesis
    by (auto simp: scan_scalar_def split: if_splits dest!: startswith_nonempty)
next
  case None
  with assms show ?thesis
    by (auto simp: scan_scalar_def split: if_splits dest!: startswith_nonempty)
qed



lemma scan_shorter_all:
  "(\<forall>s m. scan_once n s = Some m \<longrightarrow> length (snd m) < length s)
   \<and> (\<forall>acc s m. parse_array n acc s = Some m \<longrightarrow> length (snd m) < length s)
   \<and> (\<forall>dacc s m. parse_object n dacc s = Some m \<longrightarrow> length (snd m) < length s)"
proof (induction n)
  case 0
  show ?case by simp
next
  case (Suc n)
  then have IH1: "\<And>s m. scan_once n s = Some m \<Longrightarrow> length (snd m) < length s"
    and IH2: "\<And>acc s m. parse_array n acc s = Some m \<Longrightarrow> length (snd m) < length s"
    and IH3: "\<And>dacc s m. parse_object n dacc s = Some m \<Longrightarrow> length (snd m) < length s"
    by blast+
  have A: "length (snd m) < length s" if p: "scan_once (Suc n) s = Some m" for s m
  proof (cases s)
    case Nil
    with p show ?thesis by simp
  next
    case (Cons c r)
    have ws: "length (skip_ws r) \<le> length r"
      by (rule skip_ws_length)
    show ?thesis
    proof (cases "c = CHR 0x22")
      case True
      with p Cons obtain x where x: "scanstring r = Some x" and m: "snd m = snd x"
        by auto
      from scanstring_shorter [of r "fst x" "snd x"] x m Cons show ?thesis by simp
    next
      case q: False
      show ?thesis
      proof (cases "c = CHR ''{''")
        case True
        with p Cons q obtain d r' where d: "skip_ws r = d # r'"
          by (cases "skip_ws r") auto
        show ?thesis
        proof (cases "d = CHR ''}''")
          case True
          with p Cons q \<open>c = CHR ''{''\<close> d have "snd m = r'" by auto
          with ws d Cons show ?thesis by simp
        next
          case False
          with p Cons q \<open>c = CHR ''{''\<close> d have "parse_object n [] (d # r') = Some m" by auto
          from IH3 [OF this] ws d Cons show ?thesis by simp
        qed
      next
        case b: False
        show ?thesis
        proof (cases "c = CHR ''[''")
          case True
          with p Cons q b obtain d r' where d: "skip_ws r = d # r'"
            by (cases "skip_ws r") auto
          show ?thesis
          proof (cases "d = CHR '']''")
            case True
            with p Cons q b \<open>c = CHR ''[''\<close> d have "snd m = r'" by auto
            with ws d Cons show ?thesis by simp
          next
            case False
            with p Cons q b \<open>c = CHR ''[''\<close> d have "parse_array n [] (d # r') = Some m"
              by auto
            from IH2 [OF this] ws d Cons show ?thesis by simp
          qed
        next
          case False
          with p Cons q b have "scan_scalar s = Some m" by simp
          then show ?thesis by (rule scan_scalar_shorter)
        qed
      qed
    qed
  qed
  have B: "length (snd m) < length s" if p: "parse_array (Suc n) acc s = Some m" for acc s m
  proof -
    from p obtain v where v: "scan_once n s = Some v"
      by (cases "scan_once n s") auto
    from IH1 [OF v] have l: "length (snd v) < length s" .
    have ws: "length (skip_ws (snd v)) \<le> length (snd v)"
      by (rule skip_ws_length)
    from p v obtain d r where d: "skip_ws (snd v) = d # r"
      by (cases "skip_ws (snd v)") auto
    have ws2: "length (skip_ws r) \<le> length r"
      by (rule skip_ws_length)
    show ?thesis
    proof (cases "d = CHR '']''")
      case True
      with p v d have "snd m = r" by auto
      with ws l d show ?thesis by simp
    next
      case False
      with p v d have "parse_array n (acc @ [fst v]) (skip_ws r) = Some m"
        by (cases "d = CHR '',''") auto
      from IH2 [OF this] ws ws2 l d show ?thesis by simp
    qed
  qed
  have C: "length (snd m) < length s" if p: "parse_object (Suc n) dacc s = Some m" for dacc s m
  proof (cases s)
    case Nil
    with p show ?thesis by simp
  next
    case (Cons q r)
    from p Cons have q: "q = CHR 0x22"
      by (cases "q = CHR 0x22") auto
    from p Cons q obtain k where k: "scanstring r = Some k"
      by (cases "scanstring r") auto
    from scanstring_shorter [of r "fst k" "snd k"] k have lk: "length (snd k) < length r"
      by simp
    have ws1: "length (skip_ws (snd k)) \<le> length (snd k)"
      by (rule skip_ws_length)
    from p Cons q k obtain colon r1 where r1: "skip_ws (snd k) = colon # r1"
      by (cases "skip_ws (snd k)") auto
    from p Cons q k r1 have colon: "colon = CHR '':''"
      by (cases "colon = CHR '':''") auto
    have ws2: "length (skip_ws r1) \<le> length r1"
      by (rule skip_ws_length)
    from p Cons q k r1 colon obtain v where v: "scan_once n (skip_ws r1) = Some v"
      by (cases "scan_once n (skip_ws r1)") auto
    from IH1 [OF v] have lv: "length (snd v) < length (skip_ws r1)" .
    have ws3: "length (skip_ws (snd v)) \<le> length (snd v)"
      by (rule skip_ws_length)
    from p Cons q k r1 colon v obtain d r2 where r2: "skip_ws (snd v) = d # r2"
      by (cases "skip_ws (snd v)") auto
    have ws4: "length (skip_ws r2) \<le> length r2"
      by (rule skip_ws_length)
    show ?thesis
    proof (cases "d = CHR ''}''")
      case True
      with p Cons q k r1 colon v r2 have "snd m = r2" by auto
      with lk ws1 r1 ws2 lv ws3 r2 Cons show ?thesis by simp
    next
      case False
      with p Cons q k r1 colon v r2
      have "parse_object n (AList.update (fst k) (fst v) dacc) (skip_ws r2) = Some m"
        by (cases "d = CHR '',''") auto
      from IH3 [OF this] lk ws1 r1 ws2 lv ws3 r2 ws4 Cons show ?thesis by simp
    qed
  qed
  from A B C show ?case by blast
qed


lemma scan_once_shorter: "scan_once n s = Some m \<Longrightarrow> length (snd m) < length s"
  using scan_shorter_all [of n] by blast

text \<open>
  One more call allowed changes nothing, once the bound is twice the length of the
  text and one (two for the elements of an array and the members of an object).
\<close>

lemma fuel_stable_all:
  "(\<forall>s. 2 * length s + 1 \<le> n \<longrightarrow> scan_once (Suc n) s = scan_once n s)
   \<and> (\<forall>acc s. 2 * length s + 2 \<le> n \<longrightarrow> parse_array (Suc n) acc s = parse_array n acc s)
   \<and> (\<forall>dacc s. 2 * length s + 2 \<le> n
         \<longrightarrow> parse_object (Suc n) dacc s = parse_object n dacc s)"
proof (induction n)
  case 0
  show ?case by simp
next
  case (Suc n)
  then have IH1: "\<And>s. 2 * length s + 1 \<le> n \<Longrightarrow> scan_once (Suc n) s = scan_once n s"
    and IH2: "\<And>acc s. 2 * length s + 2 \<le> n
        \<Longrightarrow> parse_array (Suc n) acc s = parse_array n acc s"
    and IH3: "\<And>dacc s. 2 * length s + 2 \<le> n
        \<Longrightarrow> parse_object (Suc n) dacc s = parse_object n dacc s"
    by blast+
  have A: "scan_once (Suc (Suc n)) s = scan_once (Suc n) s" if b: "2 * length s + 1 \<le> Suc n"
    for s
  proof (cases s)
    case Nil
    then show ?thesis by simp
  next
    case (Cons c r)
    have ws: "length (skip_ws r) \<le> length r"
      by (rule skip_ws_length)
    have o: "parse_object (Suc n) [] (d # r') = parse_object n [] (d # r')"
      if "skip_ws r = d # r'" for d r'
    proof (rule IH3)
      from that ws b Cons show "2 * length (d # r') + 2 \<le> n" by simp
    qed
    have a: "parse_array (Suc n) [] (d # r') = parse_array n [] (d # r')"
      if "skip_ws r = d # r'" for d r'
    proof (rule IH2)
      from that ws b Cons show "2 * length (d # r') + 2 \<le> n" by simp
    qed
    show ?thesis
      unfolding Cons scan_once.simps(2) [of "Suc n" "c # r"] scan_once.simps(2) [of n "c # r"]
      using o a
      by (simp del: scan_once.simps parse_array.simps parse_object.simps split: list.split)
  qed
  have B: "parse_array (Suc (Suc n)) acc s = parse_array (Suc n) acc s"
    if b: "2 * length s + 2 \<le> Suc n" for acc s
  proof -
    have s1: "scan_once (Suc n) s = scan_once n s"
      using b by (intro IH1) simp
    show ?thesis
    proof (cases "scan_once n s")
      case None
      show ?thesis
        unfolding parse_array.simps(2) [of "Suc n" acc s] parse_array.simps(2) [of n acc s]
          s1 None
        by simp
    next
      case (Some v)
      from scan_once_shorter [OF Some] have l: "length (snd v) < length s" .
      have ws: "length (skip_ws (snd v)) \<le> length (snd v)"
        by (rule skip_ws_length)
      have "parse_array (Suc n) (acc @ [fst v]) (skip_ws r)
          = parse_array n (acc @ [fst v]) (skip_ws r)"
        if "skip_ws (snd v) = d # r" for d r
      proof -
        have "length (skip_ws r) \<le> length r"
          by (rule skip_ws_length)
        with that ws l b show ?thesis
          by (intro IH2) simp
      qed
      then show ?thesis
        unfolding parse_array.simps(2) [of "Suc n" acc s] parse_array.simps(2) [of n acc s]
          s1 Some
        by (simp del: scan_once.simps parse_array.simps parse_object.simps split: list.split)
    qed
  qed
  have C: "parse_object (Suc (Suc n)) dacc s = parse_object (Suc n) dacc s"
    if b: "2 * length s + 2 \<le> Suc n" for dacc s
  proof (cases s)
    case Nil
    then show ?thesis by simp
  next
    case (Cons q r)
    show ?thesis
    proof (cases "scanstring r")
      case None
      show ?thesis
        unfolding Cons parse_object.simps(2) [of "Suc n" dacc "q # r"]
          parse_object.simps(2) [of n dacc "q # r"]
        using None by simp
    next
      case (Some k)
      from scanstring_shorter [of r "fst k" "snd k"] Some have lk: "length (snd k) < length r"
        by simp
      have ws1: "length (skip_ws (snd k)) \<le> length (snd k)"
        by (rule skip_ws_length)
      have inner: "(case scan_once (Suc n) (skip_ws r1) of
              None \<Rightarrow> None
            | Some v \<Rightarrow>
                (case skip_ws (snd v) of
                   [] \<Rightarrow> None
                 | d # r2 \<Rightarrow>
                     (if d = CHR ''}'' then
                        Some (JDict (AList.update (fst k) (fst v) dacc), r2)
                      else if d = CHR '','' then
                        parse_object (Suc n) (AList.update (fst k) (fst v) dacc) (skip_ws r2)
                      else None)))
          = (case scan_once n (skip_ws r1) of
              None \<Rightarrow> None
            | Some v \<Rightarrow>
                (case skip_ws (snd v) of
                   [] \<Rightarrow> None
                 | d # r2 \<Rightarrow>
                     (if d = CHR ''}'' then
                        Some (JDict (AList.update (fst k) (fst v) dacc), r2)
                      else if d = CHR '','' then
                        parse_object n (AList.update (fst k) (fst v) dacc) (skip_ws r2)
                      else None)))"
        if r1: "skip_ws (snd k) = colon # r1" for colon r1
      proof -
        have ws2: "length (skip_ws r1) \<le> length r1"
          by (rule skip_ws_length)
        have s1: "scan_once (Suc n) (skip_ws r1) = scan_once n (skip_ws r1)"
          using b Cons lk ws1 r1 ws2 by (intro IH1) simp
        show ?thesis
        proof (cases "scan_once n (skip_ws r1)")
          case None
          show ?thesis
            unfolding s1 None by simp
        next
          case v: (Some v)
          from scan_once_shorter [OF v] have lv: "length (snd v) < length (skip_ws r1)" .
          have ws3: "length (skip_ws (snd v)) \<le> length (snd v)"
            by (rule skip_ws_length)
          have "parse_object (Suc n) (AList.update (fst k) (fst v) dacc) (skip_ws r2)
              = parse_object n (AList.update (fst k) (fst v) dacc) (skip_ws r2)"
            if "skip_ws (snd v) = d # r2" for d r2
          proof -
            have "length (skip_ws r2) \<le> length r2"
              by (rule skip_ws_length)
            with that ws3 lv ws2 r1 ws1 lk Cons b show ?thesis
              by (intro IH3) simp
          qed
          then show ?thesis
            unfolding s1 v
            by (simp del: scan_once.simps parse_array.simps parse_object.simps
                split: list.split)
        qed
      qed
      show ?thesis
        unfolding Cons parse_object.simps(2) [of "Suc n" dacc "q # r"]
          parse_object.simps(2) [of n dacc "q # r"]
        using inner Some
        by (simp del: scan_once.simps parse_array.simps parse_object.simps
            split: list.split)
    qed
  qed
  from A B C show ?case by blast
qed

text \<open>
  So the bound \<^const>\<open>json_loads\<close> starts with is no restriction: any larger bound gives
  the same reading.
\<close>

lemma scan_once_enough:
  "2 * length s + 1 \<le> n \<Longrightarrow> scan_once (n + k) s = scan_once n s"
proof (induction k)
  case 0
  show ?case by simp
next
  case (Suc k)
  have "scan_once (Suc (n + k)) s = scan_once (n + k) s"
    using fuel_stable_all [of "n + k"] Suc.prems by simp
  with Suc show ?case by simp
qed

lemma json_loads_any_bound:
  assumes "Suc (Suc (2 * length s)) \<le> n"
  shows "json_loads s =
    (case scan_once n (skip_ws s) of
       None \<Rightarrow> None
     | Some v \<Rightarrow> (if skip_ws (snd v) = [] then Some (fst v) else None))"
proof -
  have l: "2 * length (skip_ws s) + 1 \<le> Suc (Suc (2 * length s))"
    using skip_ws_length [of s] by simp
  from assms obtain k where n: "n = Suc (Suc (2 * length s)) + k"
    using le_Suc_ex by blast
  show ?thesis
    unfolding json_loads_def n scan_once_enough [OF l] ..
qed

section \<open>Evaluation rules and shared lemmas\<close>

lemmas demo_defs = demo_settings_def shared_settings_def json_settings_def demo_now_def
  demo_token_def blacklist_of_def

lemmas sign_defs = jwt_encode_def jws_sign_def jose_hmac_algorithms_def
  jose_supported_algorithms_def
  convert_time_claim_def timegm_def HMACKey_def hmac_invalid_strings_def startswith_def

lemmas create_defs = create_token_def create_token_expire_def timedelta_minutes_def
  timedelta_days_def mk_timedelta_def datetime_add_def datetime_min_def datetime_max_def
  sign_defs

lemmas validate_defs = validate_claims_def validate_iat_def validate_nbf_def
  validate_exp_def validate_aud_def validate_sub_def validate_jti_def validate_at_hash_def
  int_claim_def py_int_def

text \<open>A plain secret is the one key the library verifies with.\<close>

lemma plain_secret_get_keys: "plain_secret k \<Longrightarrow> get_keys k = Some [JStr k]"
  by (auto simp: plain_secret_def get_keys_def)

text \<open>
  A sufficient test: a secret whose first character after blanks cannot begin a JSON
  value is a plain secret.
\<close>

lemma plain_secret_by_first_char:
  assumes "skip_ws k = c # r"
    and "c \<notin> set (CHR 0x22 # ''[{-0123456789ntfNI'')"
  shows "plain_secret k"
proof -
  have "scan_scalar (c # r) = None"
    using assms(2)
    by (auto simp: scan_scalar_def startswith_def match_number_def match_int_def
        match_nat_def is_digit_def)
  with assms show ?thesis
    by (simp add: plain_secret_def json_loads_def)
qed

text \<open>
  Verifying under a plain secret that the library accepts as an HMAC secret: the
  signature matches exactly when the signing secret prepares to the same key.
\<close>

lemma jwt_decode_plain:
  assumes "plain_secret k"
    and "HMACKey k alg = Inr (hmac_prepare alg k)"
    and "alg \<in> set jose_hmac_algorithms"
  shows "jwt_decode (JWS alg signing_key payload) k [alg] verify_exp now =
    (if hmac_prepare alg signing_key \<noteq> hmac_prepare alg k then Inl JWTError
     else (case validate_claims payload verify_exp now of
             Some e \<Rightarrow> Inl e
           | None \<Rightarrow> Inr payload))"
  using assms
  by (auto simp: plain_secret_get_keys jwk_construct_def)

text \<open>What a successful \<^const>\<open>jws_sign\<close> says of its algorithm and its key.\<close>

lemma jws_sign_InrD:
  assumes "jws_sign payload key alg = Inr tok"
  shows "alg \<in> set jose_hmac_algorithms \<and> HMACKey key alg = Inr (hmac_prepare alg key)
         \<and> tok = JWS alg key payload"
  using assms
  by (auto simp: jws_sign_def HMACKey_def split: if_splits sum.splits)

text \<open>What a successful \<^const>\<open>create_token\<close> returns.\<close>

lemma create_token_InrD:
  assumes "create_token s n1 n2 hex uid t delta = Inr tok"
  shows "\<exists>expire. create_token_expire s n1 t delta = Inr expire
           \<and> ALGORITHM s \<in> set jose_hmac_algorithms
           \<and> HMACKey (if t = ACCESS then JWT_SECRET_KEY s else JWT_REFRESH_SECRET_KEY s)
                 (ALGORITHM s)
               = Inr (hmac_prepare (ALGORITHM s)
                   (if t = ACCESS then JWT_SECRET_KEY s else JWT_REFRESH_SECRET_KEY s))
           \<and> tok = JWS (ALGORITHM s)
                   (if t = ACCESS then JWT_SECRET_KEY s else JWT_REFRESH_SECRET_KEY s)
                   [(''sub'', PyStr (case uid of IsUUID u \<Rightarrow> str_UUID u | IsStr x \<Rightarrow> x)),
                    (''type'', PyStr (TokenType_value t)),
                    (''exp'', PyInt (timegm expire)), (''iat'', PyInt (timegm n2)),
                    (''jti'', PyStr hex)]"
proof -
  from assms obtain expire tok' where
    x: "create_token_expire s n1 t delta = Inr expire"
    and j: "jws_sign
        [(''sub'', PyStr (case uid of IsUUID u \<Rightarrow> str_UUID u | IsStr x \<Rightarrow> x)),
         (''type'', PyStr (TokenType_value t)),
         (''exp'', PyInt (timegm expire)), (''iat'', PyInt (timegm n2)),
         (''jti'', PyStr hex)]
        (if t = ACCESS then JWT_SECRET_KEY s else JWT_REFRESH_SECRET_KEY s) (ALGORITHM s)
      = Inr tok"
    by (auto simp: create_token_def jwt_encode_def convert_time_claim_def Let_def
        split: sum.splits)
  from jws_sign_InrD [OF j] x show ?thesis
    by blast
qed

text \<open>
  What \<^const>\<open>decode_token\<close> does with a token of that shape, whatever key signed it,
  when the secret of the expected type is a plain secret: the four checks in their
  order.
\<close>

lemma decode_issued:
  assumes "plain_secret (if t' = ACCESS then JWT_SECRET_KEY s else JWT_REFRESH_SECRET_KEY s)"
    and "HMACKey (if t' = ACCESS then JWT_SECRET_KEY s else JWT_REFRESH_SECRET_KEY s)
           (ALGORITHM s)
         = Inr (hmac_prepare (ALGORITHM s)
             (if t' = ACCESS then JWT_SECRET_KEY s else JWT_REFRESH_SECRET_KEY s))"
    and "ALGORITHM s \<in> set jose_hmac_algorithms"
  shows "decode_token s bl now
     (JWS (ALGORITHM s) key
        [(''sub'', PyStr sub), (''type'', PyStr (TokenType_value t)),
         (''exp'', PyInt e), (''iat'', PyInt i), (''jti'', PyStr hex)]) t' ve =
   (if hmac_prepare (ALGORITHM s) key
       \<noteq> hmac_prepare (ALGORITHM s)
           (if t' = ACCESS then JWT_SECRET_KEY s else JWT_REFRESH_SECRET_KEY s) then
      Inl (HTTPException 401 (Lit ''Could not validate credentials'') bearer)
    else if ve \<and> e < now then Inl (HTTPException 401 (Lit ''Token has expired'') bearer)
    else if t \<noteq> t' then Inl (HTTPException 401 (Lit ''Invalid token type'') bearer)
    else if bl (PyStr hex) then Inl (HTTPException 401 (Lit ''Token has been revoked'') bearer)
    else Inr [(''sub'', PyStr sub), (''type'', PyStr (TokenType_value t)),
         (''exp'', PyInt e), (''iat'', PyInt i), (''jti'', PyStr hex)])"
  unfolding decode_token_def Let_def jwt_decode_plain [OF assms]
  by (cases t; cases t') (simp_all add: validate_defs)

text \<open>The secrets of the examples, and the tokens issued under them.\<close>

lemma plain_access_secret: "plain_secret ''access-secret''"
  by code_simp

lemma plain_refresh_secret: "plain_secret ''refresh-secret''"
  by code_simp

lemma plain_one_secret: "plain_secret ''one-secret''"
  by code_simp

lemma json_secret_keys: "get_keys ''[123]'' = Some [JStr ''123'']"
  by code_simp

lemma demo_get_keys:
  "get_keys ''access-secret'' = Some [JStr ''access-secret'']"
  "get_keys ''refresh-secret'' = Some [JStr ''refresh-secret'']"
  "get_keys ''one-secret'' = Some [JStr ''one-secret'']"
  by (simp_all add: plain_secret_get_keys plain_access_secret plain_refresh_secret
      plain_one_secret)

lemmas decode_defs = decode_token_def validate_defs bearer_def demo_get_keys json_secret_keys
  jwk_construct_def HMACKey_def hmac_invalid_strings_def startswith_def
  jose_hmac_algorithms_def hmac_prepare_def hmac_block_def strip_nul_def

lemma demo_create:
  "create_token demo_settings demo_now demo_now demo_jti (IsStr ''alice'') ACCESS None
     = Inr (demo_token ''access-secret'' 1700001800 1700000000)"
  by (simp add: create_defs demo_defs)


lemma demo_create_json:
  "create_token json_settings demo_now demo_now demo_jti (IsStr ''alice'') ACCESS None
     = Inr (demo_token ''[123]'' 1700001800 1700000000)"
  by (simp add: create_defs demo_defs)

lemma demo_exp:
  "token_claim (demo_token key e i) ''exp'' = Some (PyInt e)"
  by (simp add: demo_token_def)

lemma demo_blacklisted: "blacklist_of [demo_jti] (PyStr demo_jti)"
  by (simp add: blacklist_of_def)

lemma demo_not_blacklisted: "\<not> blacklist_of [] (PyStr demo_jti)"
  by (simp add: blacklist_of_def)

lemma demo_plain: "plain_secret (JWT_SECRET_KEY demo_settings)"
  by (simp add: demo_settings_def plain_access_secret)

text \<open>
  The signing library on secrets that are JSON text: a token issued under
  \<^verbatim>\<open>[123]\<close> does not verify under \<^verbatim>\<open>[123]\<close>, a token issued under \<^verbatim>\<open>123\<close> does,
  and the secret \<^verbatim>\<open>true\<close> is read as a boolean, which is no key.
\<close>

lemma json_secret_examples:
  "jwt_decode (demo_token ''[123]'' 1700001800 1700000000) ''[123]'' [''HS256''] True
     1700000001 = Inl JWTError"
  "jwt_decode (demo_token ''123'' 1700001800 1700000000) ''[123]'' [''HS256''] True
     1700000001
   = Inr [(''sub'', PyStr ''alice''), (''type'', PyStr ''access''),
          (''exp'', PyInt 1700001800), (''iat'', PyInt 1700000000),
          (''jti'', PyStr demo_jti)]"
  "jwt_decode (demo_token ''true'' 1700001800 1700000000) ''true'' [''HS256''] True
     1700000001 = Inl JWKError"
  by code_simp+

section \<open>An access token presented as a refresh token\<close>




section \<open>Revocation and expiry\<close>

text \<open>
  C2, as the spec states it: once a token's identifier is in the revocation store, every
  later \<^verbatim>\<open>decode_token\<close> call reports 'Token has been revoked', also after the
  token's \<^verbatim>\<open>exp\<close> has passed. It does not: the expiry check is inside
  \<^verbatim>\<open>jwt.decode\<close> and runs before the store is asked, so the revoked token of the
  example, verified one second after its \<^verbatim>\<open>exp\<close>, reports 'Token has expired'.
\<close>

theorem revoked_then_expired_counterexample:
  "create_token demo_settings demo_now demo_now demo_jti (IsStr ''alice'') ACCESS None
     = Inr (demo_token ''access-secret'' 1700001800 1700000000)
   \<and> blacklist_of [demo_jti] (PyStr demo_jti)
   \<and> decode_token demo_settings (blacklist_of [demo_jti]) 1700001801
       (demo_token ''access-secret'' 1700001800 1700000000) ACCESS True
     = Inl (HTTPException 401 (Lit ''Token has expired'') bearer)"
  by (simp add: create_defs decode_defs demo_defs)

text \<open>
  C2, amended: for every token issued by \<^verbatim>\<open>create_token\<close> under a plain secret (one
  that is not JSON text) whose \<^verbatim>\<open>jti\<close> the revocation store holds, a
  \<^verbatim>\<open>decode_token\<close> call with the token's own type reports 'Token has been revoked'
  as long as the token is not expired or expiry is not verified; once \<^verbatim>\<open>exp\<close> is
  before the time of the call and expiry is verified, it reports 'Token has expired'.
\<close>

theorem revoked_token_decode:
  assumes "create_token s n1 n2 hex uid t delta = Inr tok"
    and "plain_secret (if t = ACCESS then JWT_SECRET_KEY s else JWT_REFRESH_SECRET_KEY s)"
    and "token_claim tok ''jti'' = Some j"
    and "is_blacklisted j"
    and "token_claim tok ''exp'' = Some (PyInt e)"
  shows "decode_token s is_blacklisted now tok t ve =
    (if ve \<and> e < now then Inl (HTTPException 401 (Lit ''Token has expired'') bearer)
     else Inl (HTTPException 401 (Lit ''Token has been revoked'') bearer))"
proof -
  from create_token_InrD [OF assms(1)] obtain expire where
    alg: "ALGORITHM s \<in> set jose_hmac_algorithms"
    and key: "HMACKey (if t = ACCESS then JWT_SECRET_KEY s else JWT_REFRESH_SECRET_KEY s)
                 (ALGORITHM s)
               = Inr (hmac_prepare (ALGORITHM s)
                   (if t = ACCESS then JWT_SECRET_KEY s else JWT_REFRESH_SECRET_KEY s))"
    and tok: "tok = JWS (ALGORITHM s)
                   (if t = ACCESS then JWT_SECRET_KEY s else JWT_REFRESH_SECRET_KEY s)
                   [(''sub'', PyStr (case uid of IsUUID u \<Rightarrow> str_UUID u | IsStr x \<Rightarrow> x)),
                    (''type'', PyStr (TokenType_value t)),
                    (''exp'', PyInt (timegm expire)), (''iat'', PyInt (timegm n2)),
                    (''jti'', PyStr hex)]"
    by auto
  from assms(5) have e: "timegm expire = e"
    unfolding tok by simp
  from assms(3) have j: "j = PyStr hex"
    unfolding tok by simp
  from assms(4) have "is_blacklisted (PyStr hex)"
    unfolding j .
  then show ?thesis
    unfolding tok decode_issued [OF assms(2) key alg] e by simp
qed

theorem revoked_token_decode_witness:
  "create_token demo_settings demo_now demo_now demo_jti (IsStr ''alice'') ACCESS None
     = Inr (demo_token ''access-secret'' 1700001800 1700000000)
   \<and> plain_secret (JWT_SECRET_KEY demo_settings)
   \<and> token_claim (demo_token ''access-secret'' 1700001800 1700000000) ''jti''
     = Some (PyStr demo_jti)
   \<and> blacklist_of [demo_jti] (PyStr demo_jti)
   \<and> token_claim (demo_token ''access-secret'' 1700001800 1700000000) ''exp''
     = Some (PyInt 1700001800)
   \<and> decode_token demo_settings (blacklist_of [demo_jti]) 1700000900
       (demo_token ''access-secret'' 1700001800 1700000000) ACCESS True
     = Inl (HTTPException 401 (Lit ''Token has been revoked'') bearer)
   \<and> decode_token demo_settings (blacklist_of [demo_jti]) 1700009999
       (demo_token ''access-secret'' 1700001800 1700000000) ACCESS False
     = Inl (HTTPException 401 (Lit ''Token has been revoked'') bearer)"
proof -
  have p: "plain_secret (if ACCESS = ACCESS then JWT_SECRET_KEY demo_settings
      else JWT_REFRESH_SECRET_KEY demo_settings)"
    using demo_plain by simp
  have j: "token_claim (demo_token ''access-secret'' 1700001800 1700000000) ''jti''
     = Some (PyStr demo_jti)"
    by (simp add: demo_token_def)
  show ?thesis
    using revoked_token_decode [where is_blacklisted = "blacklist_of [demo_jti]"
          and now = 1700000900 and ve = True, OF demo_create p j demo_blacklisted demo_exp]
      revoked_token_decode [where is_blacklisted = "blacklist_of [demo_jti]"
          and now = 1700009999 and ve = False, OF demo_create p j demo_blacklisted demo_exp]
      demo_create demo_plain j demo_blacklisted demo_exp
    by simp
qed

text \<open>
  Whatever the keys: a token that \<^verbatim>\<open>jwt.decode\<close> accepts when expiry is not
  verified, and whose \<^verbatim>\<open>exp\<close> is over, is answered \<^verbatim>\<open>ExpiredSignatureError\<close>
  when expiry is verified, and \<^const>\<open>decode_token\<close> reports 'Token has expired'
  before the store is asked.
\<close>

lemma validate_claims_expired:
  assumes "validate_claims payload False now = None"
    and "map_of payload ''exp'' = Some (PyInt e)"
    and "e < now"
  shows "validate_claims payload True now = Some ExpiredSignatureError"
proof -
  from assms(1) have "validate_iat payload = None" and "validate_nbf payload now = None"
    unfolding validate_claims_def
    by (cases "validate_iat payload"; cases "validate_nbf payload now"; simp)+
  with assms(2,3) show ?thesis
    by (simp add: validate_claims_def validate_exp_def int_claim_def py_int_def)
qed

lemma expired_before_lookup:
  assumes "jwt_decode tok key algs False now = Inr payload"
    and "map_of payload ''exp'' = Some (PyInt e)"
    and "e < now"
  shows "jwt_decode tok key algs True now = Inl ExpiredSignatureError"
proof (cases tok)
  case (Garbage x)
  with assms(1) show ?thesis by simp
next
  case (JWS alg signing_key p)
  with assms(1) have p: "p = payload" and v: "validate_claims payload False now = None"
    by (auto split: if_splits option.splits sum.splits)
  from assms(1) validate_claims_expired [OF v assms(2,3)] show ?thesis
    unfolding JWS p
    by (auto split: if_splits option.splits sum.splits)
qed

text \<open>
  C3, as the spec states it: every token whose \<^verbatim>\<open>exp\<close> lies in the past fails in
  \<^verbatim>\<open>decode_token\<close> with 'Token has expired'. It does not when the secret is JSON
  text: the signing library signs with the secret as it is and verifies with what
  the secret reads as, so the token issued under the secret \<^verbatim>\<open>[123]\<close> is turned
  away at the signature, expired or not, with 'Could not validate credentials'.
\<close>

theorem expired_json_secret_counterexample:
  "create_token json_settings demo_now demo_now demo_jti (IsStr ''alice'') ACCESS None
     = Inr (demo_token ''[123]'' 1700001800 1700000000)
   \<and> token_claim (demo_token ''[123]'' 1700001800 1700000000) ''exp''
     = Some (PyInt 1700001800)
   \<and> (1700001800 :: int) < 1700001801
   \<and> decode_token json_settings (blacklist_of []) 1700001801
       (demo_token ''[123]'' 1700001800 1700000000) ACCESS True
     = Inl (HTTPException 401 (Lit ''Could not validate credentials'') bearer)"
  by (simp add: create_defs decode_defs demo_defs)

text \<open>
  C3, amended: a token issued by \<^verbatim>\<open>create_token\<close> under a plain secret (one that is
  not JSON text) whose \<^verbatim>\<open>exp\<close> lies before the time of the call fails in
  \<^verbatim>\<open>decode_token\<close> (own type, expiry verified) with 'Token has expired', whatever
  the revocation store answers: the store is not reached.
\<close>

theorem expired_token_decode:
  assumes "create_token s n1 n2 hex uid t delta = Inr tok"
    and "plain_secret (if t = ACCESS then JWT_SECRET_KEY s else JWT_REFRESH_SECRET_KEY s)"
    and "token_claim tok ''exp'' = Some (PyInt e)"
    and "e < now"
  shows "decode_token s is_blacklisted now tok t True =
    Inl (HTTPException 401 (Lit ''Token has expired'') bearer)"
proof -
  from create_token_InrD [OF assms(1)] obtain expire where
    alg: "ALGORITHM s \<in> set jose_hmac_algorithms"
    and key: "HMACKey (if t = ACCESS then JWT_SECRET_KEY s else JWT_REFRESH_SECRET_KEY s)
                 (ALGORITHM s)
               = Inr (hmac_prepare (ALGORITHM s)
                   (if t = ACCESS then JWT_SECRET_KEY s else JWT_REFRESH_SECRET_KEY s))"
    and tok: "tok = JWS (ALGORITHM s)
                   (if t = ACCESS then JWT_SECRET_KEY s else JWT_REFRESH_SECRET_KEY s)
                   [(''sub'', PyStr (case uid of IsUUID u \<Rightarrow> str_UUID u | IsStr x \<Rightarrow> x)),
                    (''type'', PyStr (TokenType_value t)),
                    (''exp'', PyInt (timegm expire)), (''iat'', PyInt (timegm n2)),
                    (''jti'', PyStr hex)]"
    by auto
  from assms(3) have e: "timegm expire = e"
    unfolding tok by simp
  from assms(4) show ?thesis
    unfolding tok decode_issued [OF assms(2) key alg] e by simp
qed

theorem expired_token_decode_witness:
  "create_token demo_settings demo_now demo_now demo_jti (IsStr ''alice'') ACCESS None
     = Inr (demo_token ''access-secret'' 1700001800 1700000000)
   \<and> plain_secret (JWT_SECRET_KEY demo_settings)
   \<and> token_claim (demo_token ''access-secret'' 1700001800 1700000000) ''exp''
     = Some (PyInt 1700001800)
   \<and> (1700001800 :: int) < 1700001801
   \<and> decode_token demo_settings (blacklist_of []) 1700001801
       (demo_token ''access-secret'' 1700001800 1700000000) ACCESS True
     = Inl (HTTPException 401 (Lit ''Token has expired'') bearer)
   \<and> decode_token demo_settings (blacklist_of [demo_jti]) 1700001801
       (demo_token ''access-secret'' 1700001800 1700000000) ACCESS True
     = Inl (HTTPException 401 (Lit ''Token has expired'') bearer)"
proof -
  have p: "plain_secret (if ACCESS = ACCESS then JWT_SECRET_KEY demo_settings
      else JWT_REFRESH_SECRET_KEY demo_settings)"
    using demo_plain by simp
  have lt: "(1700001800 :: int) < 1700001801"
    by simp
  show ?thesis
    using expired_token_decode [where is_blacklisted = "blacklist_of []",
          OF demo_create p demo_exp lt]
      expired_token_decode [where is_blacklisted = "blacklist_of [demo_jti]",
          OF demo_create p demo_exp lt]
      demo_create demo_plain demo_exp
    by simp
qed

text \<open>
  C4, as the spec states it: an issued token whose identifier the store holds,
  verified before its \<^verbatim>\<open>exp\<close>, fails with 'Token has been revoked', and the store
  is consulted on every verification that has succeeded so far. Neither holds
  throughout. The revoked token issued under the secret \<^verbatim>\<open>[123]\<close> is turned away
  at the signature with 'Could not validate credentials'. And the token without a
  \<^verbatim>\<open>jti\<close> claim, signed under the access secret, not expired and of the right type,
  ends in the \<^verbatim>\<open>KeyError\<close> of \<^verbatim>\<open>payload["jti"]\<close> even when the store holds every
  identifier: the store is not asked.
\<close>

theorem revocation_lookup_counterexample:
  "create_token json_settings demo_now demo_now demo_jti (IsStr ''alice'') ACCESS None
     = Inr (demo_token ''[123]'' 1700001800 1700000000)
   \<and> blacklist_of [demo_jti] (PyStr demo_jti)
   \<and> decode_token json_settings (blacklist_of [demo_jti]) 1700000001
       (demo_token ''[123]'' 1700001800 1700000000) ACCESS True
     = Inl (HTTPException 401 (Lit ''Could not validate credentials'') bearer)
   \<and> jwt_decode (JWS ''HS256'' ''one-secret''
         [(''sub'', PyStr ''alice''), (''type'', PyStr ''access''),
          (''exp'', PyInt 1700001800), (''iat'', PyInt 1700000000)])
       (JWT_SECRET_KEY shared_settings) [ALGORITHM shared_settings] True 1700000001
     = Inr [(''sub'', PyStr ''alice''), (''type'', PyStr ''access''),
          (''exp'', PyInt 1700001800), (''iat'', PyInt 1700000000)]
   \<and> decode_token shared_settings revoke_all 1700000001
       (JWS ''HS256'' ''one-secret''
         [(''sub'', PyStr ''alice''), (''type'', PyStr ''access''),
          (''exp'', PyInt 1700001800), (''iat'', PyInt 1700000000)]) ACCESS True
     = Inl (KeyError ''jti'')"
  by (simp add: create_defs decode_defs demo_defs revoke_all_def)

text \<open>
  C4, amended: for every token issued by \<^verbatim>\<open>create_token\<close> under a plain secret (one
  that is not JSON text) and verified with its own type no later than its \<^verbatim>\<open>exp\<close>,
  the revocation store decides: \<^verbatim>\<open>decode_token\<close> fails with 'Token has been
  revoked' when the store holds the token's \<^verbatim>\<open>jti\<close> and returns the token's claims
  when it does not.
\<close>

theorem revoked_token_before_expiry:
  assumes "create_token s n1 n2 hex uid t delta = Inr tok"
    and "plain_secret (if t = ACCESS then JWT_SECRET_KEY s else JWT_REFRESH_SECRET_KEY s)"
    and "token_claim tok ''exp'' = Some (PyInt e)"
    and "now \<le> e"
  shows "token_claim tok ''jti'' = Some (PyStr hex)
    \<and> decode_token s is_blacklisted now tok t verify_exp =
        (if is_blacklisted (PyStr hex) then
           Inl (HTTPException 401 (Lit ''Token has been revoked'') bearer)
         else Inr (get_unverified_claims tok))"
proof -
  from create_token_InrD [OF assms(1)] obtain expire where
    alg: "ALGORITHM s \<in> set jose_hmac_algorithms"
    and key: "HMACKey (if t = ACCESS then JWT_SECRET_KEY s else JWT_REFRESH_SECRET_KEY s)
                 (ALGORITHM s)
               = Inr (hmac_prepare (ALGORITHM s)
                   (if t = ACCESS then JWT_SECRET_KEY s else JWT_REFRESH_SECRET_KEY s))"
    and tok: "tok = JWS (ALGORITHM s)
                   (if t = ACCESS then JWT_SECRET_KEY s else JWT_REFRESH_SECRET_KEY s)
                   [(''sub'', PyStr (case uid of IsUUID u \<Rightarrow> str_UUID u | IsStr x \<Rightarrow> x)),
                    (''type'', PyStr (TokenType_value t)),
                    (''exp'', PyInt (timegm expire)), (''iat'', PyInt (timegm n2)),
                    (''jti'', PyStr hex)]"
    by auto
  from assms(3) have e: "timegm expire = e"
    unfolding tok by simp
  from assms(4) show ?thesis
    unfolding tok decode_issued [OF assms(2) key alg] e by simp
qed

theorem revoked_token_before_expiry_witness:
  "create_token demo_settings demo_now demo_now demo_jti (IsStr ''alice'') ACCESS None
     = Inr (demo_token ''access-secret'' 1700001800 1700000000)
   \<and> plain_secret (JWT_SECRET_KEY demo_settings)
   \<and> token_claim (demo_token ''access-secret'' 1700001800 1700000000) ''exp''
     = Some (PyInt 1700001800)
   \<and> (1700000001 :: int) \<le> 1700001800
   \<and> blacklist_of [demo_jti] (PyStr demo_jti)
   \<and> decode_token demo_settings (blacklist_of [demo_jti]) 1700000001
       (demo_token ''access-secret'' 1700001800 1700000000) ACCESS True
     = Inl (HTTPException 401 (Lit ''Token has been revoked'') bearer)
   \<and> \<not> blacklist_of [] (PyStr demo_jti)
   \<and> decode_token demo_settings (blacklist_of []) 1700000001
       (demo_token ''access-secret'' 1700001800 1700000000) ACCESS True
     = Inr (get_unverified_claims (demo_token ''access-secret'' 1700001800 1700000000))"
proof -
  have p: "plain_secret (if ACCESS = ACCESS then JWT_SECRET_KEY demo_settings
      else JWT_REFRESH_SECRET_KEY demo_settings)"
    using demo_plain by simp
  have le: "(1700000001 :: int) \<le> 1700001800"
    by simp
  show ?thesis
    using revoked_token_before_expiry [where is_blacklisted = "blacklist_of [demo_jti]"
          and verify_exp = True, OF demo_create p demo_exp le]
      revoked_token_before_expiry [where is_blacklisted = "blacklist_of []"
          and verify_exp = True, OF demo_create p demo_exp le]
      demo_create demo_plain demo_blacklisted demo_not_blacklisted demo_exp
    by simp
qed

section \<open>Issuing and verifying again\<close>

text \<open>
  C5, as the spec states it: every access token freshly produced by
  \<^verbatim>\<open>create_token\<close>, unrevoked and unexpired, decodes at once. It does not when the
  access secret is JSON text: the token issued under the secret \<^verbatim>\<open>[123]\<close>, neither
  revoked nor expired, is verified against the key \<^verbatim>\<open>123\<close> and turned away with
  'Could not validate credentials'.
\<close>

theorem fresh_token_json_secret_counterexample:
  "create_token json_settings demo_now demo_now demo_jti (IsStr ''alice'') ACCESS None
     = Inr (demo_token ''[123]'' 1700001800 1700000000)
   \<and> \<not> blacklist_of [] (PyStr demo_jti)
   \<and> (1700000000 :: int) \<le> 1700001800
   \<and> decode_token json_settings (blacklist_of []) 1700000000
       (demo_token ''[123]'' 1700001800 1700000000) ACCESS True
     = Inl (HTTPException 401 (Lit ''Could not validate credentials'') bearer)"
  by (simp add: create_defs decode_defs demo_defs)

text \<open>
  C5, amended: an access token issued by \<^verbatim>\<open>create_token\<close> under a plain access
  secret (one that is not JSON text), not revoked and not expired, decodes as an
  access token, and the \<^verbatim>\<open>sub\<close> claim of the payload returned is the subject it
  was issued for (the string form of a UUID).
\<close>

theorem fresh_access_token_roundtrip:
  assumes "create_token s n1 n2 hex uid ACCESS delta = Inr tok"
    and "plain_secret (JWT_SECRET_KEY s)"
    and "\<not> is_blacklisted (PyStr hex)"
    and "token_claim tok ''exp'' = Some (PyInt e)"
    and "now \<le> e"
  shows "\<exists>payload. decode_token s is_blacklisted now tok ACCESS True = Inr payload
           \<and> map_of payload ''sub''
             = Some (PyStr (case uid of IsStr x \<Rightarrow> x | IsUUID u \<Rightarrow> str_UUID u))"
proof -
  from create_token_InrD [OF assms(1)] obtain expire where
    alg: "ALGORITHM s \<in> set jose_hmac_algorithms"
    and key: "HMACKey (if ACCESS = ACCESS then JWT_SECRET_KEY s else JWT_REFRESH_SECRET_KEY s)
                 (ALGORITHM s)
               = Inr (hmac_prepare (ALGORITHM s)
                   (if ACCESS = ACCESS then JWT_SECRET_KEY s else JWT_REFRESH_SECRET_KEY s))"
    and tok: "tok = JWS (ALGORITHM s) (JWT_SECRET_KEY s)
                   [(''sub'', PyStr (case uid of IsUUID u \<Rightarrow> str_UUID u | IsStr x \<Rightarrow> x)),
                    (''type'', PyStr (TokenType_value ACCESS)),
                    (''exp'', PyInt (timegm expire)), (''iat'', PyInt (timegm n2)),
                    (''jti'', PyStr hex)]"
    by auto
  have p: "plain_secret (if ACCESS = ACCESS then JWT_SECRET_KEY s else JWT_REFRESH_SECRET_KEY s)"
    using assms(2) by simp
  from assms(4) have e: "timegm expire = e"
    unfolding tok by simp
  from assms(3,5) show ?thesis
    unfolding tok decode_issued [OF p key alg] e by (cases uid) simp_all
qed

theorem fresh_access_token_roundtrip_witness:
  "create_token demo_settings demo_now demo_now demo_jti
       (IsUUID 0x123e4567e89b12d3a456426614174000) ACCESS None
     = Inr (JWS ''HS256'' ''access-secret''
         [(''sub'', PyStr ''123e4567-e89b-12d3-a456-426614174000''),
          (''type'', PyStr ''access''), (''exp'', PyInt 1700001800),
          (''iat'', PyInt 1700000000), (''jti'', PyStr demo_jti)])
   \<and> plain_secret (JWT_SECRET_KEY demo_settings)
   \<and> \<not> blacklist_of [] (PyStr demo_jti)
   \<and> (1700000000 :: int) \<le> 1700001800
   \<and> decode_token demo_settings (blacklist_of []) 1700000000
       (JWS ''HS256'' ''access-secret''
         [(''sub'', PyStr ''123e4567-e89b-12d3-a456-426614174000''),
          (''type'', PyStr ''access''), (''exp'', PyInt 1700001800),
          (''iat'', PyInt 1700000000), (''jti'', PyStr demo_jti)]) ACCESS True
     = Inr [(''sub'', PyStr ''123e4567-e89b-12d3-a456-426614174000''),
          (''type'', PyStr ''access''), (''exp'', PyInt 1700001800),
          (''iat'', PyInt 1700000000), (''jti'', PyStr demo_jti)]"
proof -
  have u: "str_UUID 0x123e4567e89b12d3a456426614174000
      = ''123e4567-e89b-12d3-a456-426614174000''"
    by (simp add: str_UUID_def uuid_hex_def hex_digit_def upt_rec drop_bit_eq_div)
  have c: "create_token demo_settings demo_now demo_now demo_jti
       (IsUUID 0x123e4567e89b12d3a456426614174000) ACCESS None
     = Inr (JWS ''HS256'' ''access-secret''
         [(''sub'', PyStr ''123e4567-e89b-12d3-a456-426614174000''),
          (''type'', PyStr ''access''), (''exp'', PyInt 1700001800),
          (''iat'', PyInt 1700000000), (''jti'', PyStr demo_jti)])"
    by (simp add: create_defs demo_defs u)
  have x: "token_claim (JWS ''HS256'' ''access-secret''
         [(''sub'', PyStr ''123e4567-e89b-12d3-a456-426614174000''),
          (''type'', PyStr ''access''), (''exp'', PyInt 1700001800),
          (''iat'', PyInt 1700000000), (''jti'', PyStr demo_jti)]) ''exp''
      = Some (PyInt 1700001800)"
    by simp
  have le: "(1700000000 :: int) \<le> 1700001800"
    by simp
  have d: "decode_token demo_settings (blacklist_of []) 1700000000
       (JWS ''HS256'' ''access-secret''
         [(''sub'', PyStr ''123e4567-e89b-12d3-a456-426614174000''),
          (''type'', PyStr ''access''), (''exp'', PyInt 1700001800),
          (''iat'', PyInt 1700000000), (''jti'', PyStr demo_jti)]) ACCESS True
     = Inr [(''sub'', PyStr ''123e4567-e89b-12d3-a456-426614174000''),
          (''type'', PyStr ''access''), (''exp'', PyInt 1700001800),
          (''iat'', PyInt 1700000000), (''jti'', PyStr demo_jti)]"
    by (simp add: decode_defs demo_defs)
  show ?thesis
    using fresh_access_token_roundtrip [where is_blacklisted = "blacklist_of []",
        OF c demo_plain demo_not_blacklisted x le] c demo_plain demo_not_blacklisted d
    by simp
qed

section \<open>Resolving the current user\<close>



text \<open>
  From issuance to the user: for an access token of \<^const>\<open>create_token\<close> under a plain
  secret, neither revoked nor expired, the lookup is by the subject it was issued for.
\<close>

lemma get_current_user_issued:
  assumes "create_token s n1 n2 hex uid ACCESS delta = Inr tok"
    and "plain_secret (JWT_SECRET_KEY s)"
    and "\<not> is_blacklisted (PyStr hex)"
    and "token_claim tok ''exp'' = Some (PyInt e)"
    and "now \<le> e"
  shows "get_current_user s is_blacklisted now db tok =
    (case db (PyStr (case uid of IsStr x \<Rightarrow> x | IsUUID u \<Rightarrow> str_UUID u)) of
       None \<Rightarrow>
         Inl (HTTPException 401 (Str (HTTPException 404 (Lit ''User not found'') [])) bearer)
     | Some u \<Rightarrow>
         (if is_active u then Inr u
          else Inl (HTTPException 401 (Str (HTTPException 400 (Lit ''Inactive user'') []))
                 bearer)))"
proof -
  from create_token_InrD [OF assms(1)] obtain expire where
    alg: "ALGORITHM s \<in> set jose_hmac_algorithms"
    and key: "HMACKey (if ACCESS = ACCESS then JWT_SECRET_KEY s else JWT_REFRESH_SECRET_KEY s)
                 (ALGORITHM s)
               = Inr (hmac_prepare (ALGORITHM s)
                   (if ACCESS = ACCESS then JWT_SECRET_KEY s else JWT_REFRESH_SECRET_KEY s))"
    and tok: "tok = JWS (ALGORITHM s) (JWT_SECRET_KEY s)
                   [(''sub'', PyStr (case uid of IsUUID u \<Rightarrow> str_UUID u | IsStr x \<Rightarrow> x)),
                    (''type'', PyStr (TokenType_value ACCESS)),
                    (''exp'', PyInt (timegm expire)), (''iat'', PyInt (timegm n2)),
                    (''jti'', PyStr hex)]"
    by auto
  have p: "plain_secret (if ACCESS = ACCESS then JWT_SECRET_KEY s else JWT_REFRESH_SECRET_KEY s)"
    using assms(2) by simp
  from assms(4) have e: "timegm expire = e"
    unfolding tok by simp
  from assms(3,5) show ?thesis
    unfolding get_current_user_def tok decode_issued [OF p key alg] e unauthorized_def
    by (cases uid) (simp_all split: option.split)
qed

section \<open>The lifetime of an issued token\<close>

text \<open>
  Where the supplied lifetime does replace the default: whenever it is not zero,
  negative or not.
\<close>

lemma supplied_lifetime_replaces_default:
  "td \<noteq> 0 \<Longrightarrow> create_token_expire s now t (Some td) = datetime_add now td"
  by (simp add: create_token_expire_def)

lemma supplied_lifetime_exp:
  assumes "create_token s n1 n2 hex uid t (Some td) = Inr tok" and "td \<noteq> 0"
  shows "token_claim tok ''exp'' = Some (PyInt (timegm (n1 + td)))"
proof -
  from create_token_InrD [OF assms(1)] obtain expire where
    x: "create_token_expire s n1 t (Some td) = Inr expire"
    and tok: "token_claim tok ''exp'' = Some (PyInt (timegm expire))"
    by auto
  from x assms(2) have "expire = n1 + td"
    by (simp add: supplied_lifetime_replaces_default datetime_add_def split: if_splits)
  with tok show ?thesis by simp
qed

lemma map_of_convert_time_claim:
  "map_of (map convert_time_claim al) k
     = map_option (\<lambda>v. snd (convert_time_claim (k, v))) (map_of al k)"
  by (induction al) (auto simp: convert_time_claim_def split: pyval.splits)

lemma supplied_minutes_exp:
  assumes "create_access_token s n1 n2 data (Some m) = Inr tok" and "m \<noteq> 0"
  shows "token_claim tok ''exp'' = Some (PyInt (timegm (n1 + m * 60000000)))"
proof -
  from assms have "tok = JWS (ALGORITHM s) (SECRET_KEY s)
       (map convert_time_claim
         (AList.update ''iat'' (PyDatetime n2)
           (AList.update ''exp'' (PyDatetime (n1 + m * 60000000)) data)))"
    by (auto simp: create_access_token_def timedelta_minutes_def mk_timedelta_def
        datetime_add_def jwt_encode_def dest!: jws_sign_InrD split: sum.splits if_splits)
  then show ?thesis
    by (simp add: map_of_convert_time_claim update_conv' convert_time_claim_def)
qed

text \<open>
  C8, at the input where the code leaves it: a caller who supplies
  \<^verbatim>\<open>expires_delta = timedelta(0)\<close> to \<^verbatim>\<open>create_token\<close>, or \<^verbatim>\<open>expires_minutes = 0\<close>
  to \<^verbatim>\<open>create_access_token\<close>, gets the configured default of 30 minutes:
  \<^verbatim>\<open>exp\<close> is 1700001800, not the issuance time 1700000000 plus zero. The test
  \<^verbatim>\<open>if expires_delta:\<close> takes a zero lifetime for an absent one.
\<close>

theorem zero_lifetime_takes_default:
  "create_token demo_settings demo_now demo_now demo_jti (IsStr ''alice'') ACCESS (Some 0)
     = Inr (demo_token ''access-secret'' 1700001800 1700000000)
   \<and> create_token demo_settings demo_now demo_now demo_jti (IsStr ''alice'') ACCESS None
     = Inr (demo_token ''access-secret'' 1700001800 1700000000)
   \<and> token_claim (demo_token ''access-secret'' 1700001800 1700000000) ''exp''
     = Some (PyInt 1700001800)
   \<and> timegm (demo_now + 0) = 1700000000
   \<and> create_access_token demo_settings demo_now demo_now [(''sub'', PyStr ''alice'')] (Some 0)
     = Inr (JWS ''HS256'' ''simple-secret''
         [(''sub'', PyStr ''alice''), (''exp'', PyInt 1700001800),
          (''iat'', PyInt 1700000000)])"
  by (simp add: create_defs create_access_token_def demo_defs)

text \<open>
  C9, as the spec states it: every token \<^verbatim>\<open>create_token\<close> produces has
  \<^verbatim>\<open>exp > iat\<close>. It does not: nothing checks the lifetime, and a negative
  \<^verbatim>\<open>expires_delta\<close> of one minute gives a token whose \<^verbatim>\<open>exp\<close> is 60 seconds
  before its \<^verbatim>\<open>iat\<close>.
\<close>

theorem negative_lifetime_counterexample:
  "create_token demo_settings demo_now demo_now demo_jti (IsStr ''alice'') ACCESS
       (Some (- 60000000))
     = Inr (demo_token ''access-secret'' 1699999940 1700000000)
   \<and> token_claim (demo_token ''access-secret'' 1699999940 1700000000) ''exp''
     = Some (PyInt 1699999940)
   \<and> token_claim (demo_token ''access-secret'' 1699999940 1700000000) ''iat''
     = Some (PyInt 1700000000)
   \<and> (1699999940 :: int) < 1700000000"
  by (simp add: create_defs demo_defs)

text \<open>
  C9, amended: whenever the expiry instant \<^verbatim>\<open>create_token\<close> computes (its first
  clock reading plus the supplied non-zero \<^verbatim>\<open>expires_delta\<close>, or plus the configured
  default) is at least one second after the clock reading it takes for \<^verbatim>\<open>iat\<close>, the
  token produced has \<^verbatim>\<open>exp > iat\<close>.
\<close>

theorem exp_after_iat:
  assumes "create_token s now_expire now_iat hex uid t delta = Inr tok"
    and "create_token_expire s now_expire t delta = Inr expire"
    and "now_iat + 1000000 \<le> expire"
  shows "\<exists>e i. token_claim tok ''exp'' = Some (PyInt e)
           \<and> token_claim tok ''iat'' = Some (PyInt i) \<and> i < e"
proof -
  from create_token_InrD [OF assms(1)] assms(2) have
    tok: "tok = JWS (ALGORITHM s)
                   (if t = ACCESS then JWT_SECRET_KEY s else JWT_REFRESH_SECRET_KEY s)
                   [(''sub'', PyStr (case uid of IsUUID u \<Rightarrow> str_UUID u | IsStr x \<Rightarrow> x)),
                    (''type'', PyStr (TokenType_value t)),
                    (''exp'', PyInt (timegm expire)), (''iat'', PyInt (timegm now_iat)),
                    (''jti'', PyStr hex)]"
    by auto
  have "(now_iat + 1 * 1000000) div 1000000 \<le> expire div 1000000"
    using assms(3) by (intro zdiv_mono1) simp_all
  then have "timegm now_iat < timegm expire"
    unfolding timegm_def by simp
  then show ?thesis
    unfolding tok by simp
qed

theorem exp_after_iat_witness:
  "create_token demo_settings demo_now (demo_now + 900000) demo_jti (IsStr ''alice'') ACCESS
       (Some 2000000)
     = Inr (demo_token ''access-secret'' 1700000002 1700000001)
   \<and> create_token_expire demo_settings demo_now ACCESS (Some 2000000)
     = Inr 1700000002250000
   \<and> demo_now + 900000 + 1000000 \<le> 1700000002250000
   \<and> token_claim (demo_token ''access-secret'' 1700000002 1700000001) ''exp''
     = Some (PyInt 1700000002)
   \<and> token_claim (demo_token ''access-secret'' 1700000002 1700000001) ''iat''
     = Some (PyInt 1700000001)
   \<and> (1700000001 :: int) < 1700000002"
proof -
  have c: "create_token demo_settings demo_now (demo_now + 900000) demo_jti (IsStr ''alice'')
       ACCESS (Some 2000000)
     = Inr (demo_token ''access-secret'' 1700000002 1700000001)"
    by (simp add: create_defs demo_defs)
  have x: "create_token_expire demo_settings demo_now ACCESS (Some 2000000)
     = Inr 1700000002250000"
    by (simp add: create_defs demo_defs)
  have le: "demo_now + 900000 + 1000000 \<le> 1700000002250000"
    by (simp add: demo_now_def)
  show ?thesis
    using exp_after_iat [OF c x le] c x le
    by (simp add: demo_token_def)
qed

section \<open>A signed token without an identifier\<close>

text \<open>
  C10: there is a token whose signature is valid under the access secret, which is
  not expired and has no \<^verbatim>\<open>jti\<close> claim, on which \<^verbatim>\<open>decode_token\<close> ends in the
  \<^verbatim>\<open>KeyError\<close> of \<^verbatim>\<open>payload["jti"]\<close> and in none of its 401 rejections: with one
  secret for everything, \<^verbatim>\<open>create_access_token\<close> makes such a token from the claims
  \<^verbatim>\<open>sub\<close> and \<^verbatim>\<open>type\<close>.
\<close>

theorem decode_token_missing_jti:
  "create_access_token shared_settings demo_now demo_now
       [(''sub'', PyStr ''alice''), (''type'', PyStr ''access'')] None
     = Inr (JWS ''HS256'' ''one-secret''
         [(''sub'', PyStr ''alice''), (''type'', PyStr ''access''),
          (''exp'', PyInt 1700001800), (''iat'', PyInt 1700000000)])
   \<and> jwt_decode (JWS ''HS256'' ''one-secret''
         [(''sub'', PyStr ''alice''), (''type'', PyStr ''access''),
          (''exp'', PyInt 1700001800), (''iat'', PyInt 1700000000)])
       (JWT_SECRET_KEY shared_settings) [ALGORITHM shared_settings] True 1700000001
     = Inr [(''sub'', PyStr ''alice''), (''type'', PyStr ''access''),
          (''exp'', PyInt 1700001800), (''iat'', PyInt 1700000000)]
   \<and> token_claim (JWS ''HS256'' ''one-secret''
         [(''sub'', PyStr ''alice''), (''type'', PyStr ''access''),
          (''exp'', PyInt 1700001800), (''iat'', PyInt 1700000000)]) ''jti'' = None
   \<and> decode_token shared_settings (blacklist_of []) 1700000001
       (JWS ''HS256'' ''one-secret''
         [(''sub'', PyStr ''alice''), (''type'', PyStr ''access''),
          (''exp'', PyInt 1700001800), (''iat'', PyInt 1700000000)]) ACCESS True
     = Inl (KeyError ''jti'')"
  by (simp add: create_defs create_access_token_def decode_defs demo_defs)

section \<open>Verifying a password against a malformed hash\<close>

lemma split_on_not_Nil: "split_on c s \<noteq> []"
  by (induction s) (auto split: list.splits)

lemma split_on_single: "split_on c s = [b] \<Longrightarrow> s = b"
proof (induction s arbitrary: b)
  case Nil
  then show ?case by simp
next
  case (Cons x xs)
  show ?case
  proof (cases "x = c")
    case True
    with Cons.prems have "split_on c xs = []" by simp
    with split_on_not_Nil show ?thesis by blast
  next
    case False
    with Cons.prems obtain w where "split_on c xs = [w]" and "b = x # w"
      by (auto simp: split_on_not_Nil split: list.splits)
    with Cons.IH show ?thesis by simp
  qed
qed

lemma split_on_pair: "split_on c s = [a, b] \<Longrightarrow> s = a @ c # b"
proof (induction s arbitrary: a)
  case Nil
  then show ?case by simp
next
  case (Cons x xs)
  show ?case
  proof (cases "x = c")
    case True
    with Cons.prems have "a = []" and "split_on c xs = [b]" by simp_all
    with split_on_single True show ?thesis by fastforce
  next
    case False
    with Cons.prems obtain w where "split_on c xs = [w, b]" and "a = x # w"
      by (auto simp: split_on_not_Nil split: list.splits)
    with Cons.IH show ?thesis by simp
  qed
qed

lemma find_ident:
  assumes "List.find (startswith hash) bcrypt_ident_values = Some idt"
  shows "startswith hash idt \<and> idt \<in> set bcrypt_ident_values"
  using assms by (auto simp: find_Some_iff)

text \<open>A hash that \<^const>\<open>bcrypt_from_string\<close> parses, digest included, is well formed.\<close>

lemma bcrypt_from_string_well_formed:
  assumes "bcrypt_from_string hash = Inr h" and "checksum h = Some chk"
  shows "well_formed_bcrypt hash"
proof -
  from assms obtain idt rounds_str data r where
    idt: "List.find (startswith hash) bcrypt_ident_values = Some idt" "idt \<noteq> ''$2x$''"
    and sp: "split_on CHR ''$'' (drop (length idt) hash) = [rounds_str, data]"
    and cost: "parse_cost rounds_str = Some r" "4 \<le> r" "r \<le> 31"
    and slt: "22 \<le> length (take 22 data)"
      "\<not> list_ex (\<lambda>c. c \<notin> set bcrypt64_chars) (take 22 data)"
    and chk: "length (drop 22 data) = 31"
      "\<not> list_ex (\<lambda>c. c \<notin> set bcrypt64_chars) (drop 22 data)"
    unfolding bcrypt_from_string_def
    by (auto simp: Let_def split: option.splits if_splits list.splits)
  from cost(1) obtain a b where rs: "rounds_str = [a, b]" "is_digit a" "is_digit b"
    and r: "r = 10 * digit_val a + digit_val b"
    unfolding parse_cost_def by (auto split: list.splits if_splits)
  from split_on_pair [OF sp] have tail: "drop (length idt) hash = a # b # CHR ''$'' # data"
    using rs by simp
  from slt(1) chk(1) have len: "length data = 53"
    by simp
  have "list_all (\<lambda>c. c \<in> set bcrypt64_chars) (take 22 data @ drop 22 data)"
    using slt(2) chk(2) unfolding list_all_append by (simp add: list_ex_iff list_all_iff)
  then have chars: "list_all (\<lambda>c. c \<in> set bcrypt64_chars) data"
    by simp
  have wt: "well_formed_tail (drop (length idt) hash)"
    unfolding well_formed_tail_def tail using rs r cost len chars by simp
  from find_ident [OF idt(1)] idt(2)
  have "startswith hash idt" and "idt \<in> set [''$2$'', ''$2a$'', ''$2y$'', ''$2b$'']"
    by (auto simp: bcrypt_ident_values_def)
  with wt show ?thesis
    unfolding well_formed_bcrypt_def list_ex_iff by blast
qed

text \<open>Whatever \<^const>\<open>bcrypt_from_string\<close> rejects, it rejects with a \<^verbatim>\<open>ValueError\<close>.\<close>

lemma bcrypt_from_string_error:
  "bcrypt_from_string hash = Inl e \<Longrightarrow> e = ValueError"
  unfolding bcrypt_from_string_def
  by (auto simp: Let_def split: option.splits if_splits list.splits)

text \<open>A well-formed hash is answered with a boolean: the model does not raise on everything.\<close>

lemma verify_password_well_formed_example:
  "well_formed_bcrypt ''$2b$12$abcdefghijklmnopqrstuv...............................''
   \<and> verify_password demo_checksum ''Secret123''
       ''$2b$12$abcdefghijklmnopqrstuv...............................'' = Inr True"
  by (simp add: verify_password_def pwd_context_verify_def bcrypt_identify_def
      bcrypt_ident_values_def startswith_def well_formed_bcrypt_def well_formed_tail_def
      bcrypt_from_string_def parse_cost_def is_digit_def digit_val_def bcrypt64_chars_def
      demo_checksum_def)

text \<open>
  On a malformed hash \<^verbatim>\<open>verify_password\<close> raises and returns nothing:
  \<^verbatim>\<open>UnknownHashError\<close> when the string does not begin with a bcrypt identifier, a
  \<^verbatim>\<open>ValueError\<close> when it does.
\<close>

lemma verify_password_malformed:
  assumes "\<not> well_formed_bcrypt hashed"
  shows "verify_password calc_checksum plain hashed =
    Inl (if bcrypt_identify hashed then ValueError else UnknownHashError)"
proof (cases "bcrypt_identify hashed")
  case False
  then show ?thesis
    by (simp add: verify_password_def pwd_context_verify_def)
next
  case True
  show ?thesis
  proof (cases "bcrypt_from_string hashed")
    case (Inl e)
    with bcrypt_from_string_error [OF Inl] True show ?thesis
      by (simp add: verify_password_def pwd_context_verify_def)
  next
    case (Inr h)
    with assms bcrypt_from_string_well_formed [OF Inr] have "checksum h = None"
      by (cases "checksum h") auto
    with Inr True show ?thesis
      by (simp add: verify_password_def pwd_context_verify_def)
  qed
qed

text \<open>
  C7, at the input where the code leaves it: \<^verbatim>\<open>verify_password\<close> is documented to
  return a boolean, true if the password matches and false otherwise, and the spec
  says false for any malformed hash. On the malformed hashes \<^verbatim>\<open>not-a-hash\<close> and
  \<^verbatim>\<open>$2b$12$tooshort\<close> it returns nothing: it hands the call to the library,
  catches nothing, and the library raises \<^verbatim>\<open>UnknownHashError\<close> on the first and a
  \<^verbatim>\<open>ValueError\<close> on the second.
\<close>

theorem verify_password_raises_on_malformed:
  "\<not> well_formed_bcrypt ''not-a-hash''
   \<and> verify_password demo_checksum ''Secret123'' ''not-a-hash'' = Inl UnknownHashError
   \<and> \<not> well_formed_bcrypt ''$2b$12$tooshort''
   \<and> verify_password demo_checksum ''Secret123'' ''$2b$12$tooshort'' = Inl ValueError"
  by (simp add: verify_password_def pwd_context_verify_def bcrypt_identify_def
      bcrypt_ident_values_def startswith_def well_formed_bcrypt_def well_formed_tail_def
      bcrypt_from_string_def parse_cost_def is_digit_def digit_val_def)

end
